theory Spec2Isabelle
  imports Main
begin

section \<open>Errors and database handle\<close>

text \<open>
  Errors of the database driver are carried as their text. The errors of the
  \<^verbatim>\<open>api\<close> package are the machine-readable reason codes the handlers answer with.
\<close>

type_synonym db_error = string

datatype api_error =
    InternalError string
  | ResourceDoesNotExistError string
  | InvalidParameterValue string

subsection \<open>Rows\<close>

record Tag =
  TagKey :: string
  TagValue :: string
  TagRunID :: string

datatype LifecycleStage = LifecycleStageActive | LifecycleStageDeleted

datatype Status = StatusRunning | StatusOther string

text \<open>
  A run, with the columns \<^verbatim>\<open>GetProjectActivity\<close> reads. \<open>StartTime\<close> is the
  \<^verbatim>\<open>Int64\<close> of the nullable column (zero when the column is NULL).
\<close>

record Run =
  RunID :: string
  LifecycleStage :: LifecycleStage
  Status :: Status
  StartTime :: int

subsection \<open>The database handle of the tag repository\<close>

text \<open>
  The handle holds the rows of the \<^verbatim>\<open>tags\<close> table and the error, if any, that the
  next \<^verbatim>\<open>Find\<close> reports (a lost connection, a cancelled context).
\<close>

record tag_db =
  tags_rows :: "Tag list"
  find_error :: "db_error option"

definition Find_tags :: "tag_db \<Rightarrow> db_error + Tag list" where
  "Find_tags db = (case find_error db of Some e \<Rightarrow> Inl e | None \<Rightarrow> Inr (tags_rows db))"

text \<open>
  \<^verbatim>\<open>TagRepository.GetTagsByNamespace\<close>: the rows go into the local \<^verbatim>\<open>tags\<close>,
  the error of the statement is returned as it is, and otherwise a fresh empty slice.
\<close>

definition GetTagsByNamespace :: "tag_db \<Rightarrow> nat \<Rightarrow> db_error + Tag list" where
  "GetTagsByNamespace db namespaceID =
     (case Find_tags db of
        Inl err \<Rightarrow> Inl err
      | Inr tags \<Rightarrow> Inr [])"

section \<open>The project service\<close>

text \<open>
  The repositories are interfaces; the service sees each method as a function from its
  arguments to rows or an error.
\<close>

record MetricKeyContext =
  MetricKey :: string
  MetricContext :: string

record Service =
  GetByNamespaceID :: "nat \<Rightarrow> db_error + Run list"
  GetCountOfActiveExperiments :: "nat \<Rightarrow> db_error + int"
  GetParamKeysByParameters :: "nat \<Rightarrow> string list \<Rightarrow> db_error + string list"
  GetTagKeysByParameters :: "nat \<Rightarrow> string list \<Rightarrow> db_error + string list"
  GetMetricKeysAndContextsByExperiments ::
    "nat \<Rightarrow> string list \<Rightarrow> db_error + MetricKeyContext list"

subsection \<open>GetProjectActivity\<close>

record ProjectActivity =
  NumRuns :: int
  ActivityMap :: "string \<rightharpoonup> int"
  NumActiveRuns :: int
  NumExperiments :: int
  NumArchivedRuns :: int

text \<open>
  The body of the loop over the runs. The \<^verbatim>\<open>switch\<close> takes its first true case, so
  a deleted run is archived whatever its status. \<open>hour_key\<close> stands for
  \<^verbatim>\<open>time.UnixMilli(..).Add(..).Format("2006-01-02T15:00:00")\<close> of the standard
  library, which reads the process's time zone; \<^verbatim>\<open>activity[key] += 1\<close> starts a
  missing key at zero.
\<close>

definition activity_step ::
  "(int \<Rightarrow> int \<Rightarrow> string) \<Rightarrow> int \<Rightarrow> (string \<rightharpoonup> int) \<times> int \<times> int \<Rightarrow> Run
     \<Rightarrow> (string \<rightharpoonup> int) \<times> int \<times> int" where
  "activity_step hour_key tzOffset st run =
     (case st of (activity, numActiveRuns, numArchivedRuns) \<Rightarrow>
        (let counts =
               (if LifecycleStage run = LifecycleStageDeleted
                  then (numActiveRuns, numArchivedRuns + 1)
                else if Status run = StatusRunning
                  then (numActiveRuns + 1, numArchivedRuns)
                else (numActiveRuns, numArchivedRuns));
             k = hour_key (StartTime run) tzOffset
         in (activity(k \<mapsto> (case activity k of None \<Rightarrow> 0 | Some c \<Rightarrow> c) + 1),
             fst counts, snd counts)))"

fun activity_loop ::
  "(int \<Rightarrow> int \<Rightarrow> string) \<Rightarrow> int \<Rightarrow> (string \<rightharpoonup> int) \<times> int \<times> int \<Rightarrow> Run list
     \<Rightarrow> (string \<rightharpoonup> int) \<times> int \<times> int" where
  "activity_loop hour_key tzOffset st [] = st"
| "activity_loop hour_key tzOffset st (run # runs) =
     activity_loop hour_key tzOffset (activity_step hour_key tzOffset st run) runs"

definition GetProjectActivity ::
  "Service \<Rightarrow> (int \<Rightarrow> int \<Rightarrow> string) \<Rightarrow> nat \<Rightarrow> int \<Rightarrow> api_error + ProjectActivity" where
  "GetProjectActivity s hour_key namespaceID tzOffset =
     (case GetByNamespaceID s namespaceID of
        Inl err \<Rightarrow> Inl (InternalError (''error getting runs: '' @ err))
      | Inr runs \<Rightarrow>
          (case activity_loop hour_key tzOffset (Map.empty, 0, 0) runs of
             (activity, numActiveRuns, numArchivedRuns) \<Rightarrow>
               (case GetCountOfActiveExperiments s namespaceID of
                  Inl err \<Rightarrow>
                    Inl (InternalError (''error getting number of active experiments: '' @ err))
                | Inr numActiveExperiments \<Rightarrow>
                    Inr \<lparr> NumRuns = int (length runs),
                          ActivityMap = activity,
                          NumActiveRuns = numActiveRuns,
                          NumExperiments = numActiveExperiments,
                          NumArchivedRuns = numArchivedRuns \<rparr>)))"

text \<open>The sum of the counters of an activity map.\<close>

definition activity_total :: "(string \<rightharpoonup> int) \<Rightarrow> int" where
  "activity_total m = (\<Sum>k \<in> dom m. the (m k))"

subsection \<open>GetProjectParams\<close>







subsection \<open>A sample service\<close>

definition demo_runs :: "Run list" where
  "demo_runs =
     [\<lparr> RunID = ''r1'', LifecycleStage = LifecycleStageDeleted, Status = StatusRunning,
        StartTime = 0 \<rparr>,
      \<lparr> RunID = ''r2'', LifecycleStage = LifecycleStageActive, Status = StatusRunning,
        StartTime = 0 \<rparr>,
      \<lparr> RunID = ''r3'', LifecycleStage = LifecycleStageActive, Status = StatusOther ''FINISHED'',
        StartTime = 3600000 \<rparr>]"

definition demo_service :: Service where
  "demo_service =
     \<lparr> GetByNamespaceID = (\<lambda>_. Inr demo_runs),
       GetCountOfActiveExperiments = (\<lambda>_. Inr 1),
       GetParamKeysByParameters = (\<lambda>_ _. Inr [''lr'']),
       GetTagKeysByParameters = (\<lambda>_ _. Inr [''owner'']),
       GetMetricKeysAndContextsByExperiments =
         (\<lambda>_ _. Inr [\<lparr> MetricKey = ''loss'', MetricContext = ''{}'' \<rparr>]) \<rparr>"





section \<open>The server\<close>

subsection \<open>Namespaces, roles and configuration\<close>

text \<open>
  A namespace, with the fields the test suites fill in, and the mark of a soft delete:
  a namespace is active while \<open>DeletedAt\<close> is empty.
\<close>

record Namespace =
  ID :: nat
  Code :: string
  Description :: string
  DefaultExperimentID :: "int option"
  DeletedAt :: "nat option"

text \<open>
  Modelled from the spec: a role (the declaration is missing from the sources at hand):
  its name, the namespace codes it grants, the flag that stands for "all namespaces"
  (the admin role), and the users bound to it.
\<close>

record Role =
  RoleName :: string
  RoleNamespaces :: "string list"
  RoleIsAdmin :: bool
  RoleUsers :: "string list"

text \<open>
  A user of the users file, as the test suite writes it: the roles are \<open>''admin''\<close> or
  \<open>''ns:''\<close> followed by a namespace code.
\<close>

record YamlUserConfig =
  Name :: string
  Roles :: "string list"
  Password :: string

text \<open>
  Modelled from the spec: the auth configuration (the package \<^verbatim>\<open>config/auth\<close> is
  missing from the sources at hand): the auth mode selector, the shared Basic-Auth
  credentials, and the users of the users file. \<^verbatim>\<open>createApp\<close> reads these four.
\<close>

datatype AuthType = TypeUnset | TypeUser | TypeOIDC

record AuthConfig =
  AuthType :: AuthType
  AuthUsername :: string
  AuthPassword :: string
  AuthParsedUserPermissions :: "YamlUserConfig list"

text \<open>Modelled from the spec: the auth mode selector says OIDC.\<close>

definition IsAuthTypeOIDC :: "AuthConfig \<Rightarrow> bool" where
  "IsAuthTypeOIDC c = (AuthType c = TypeOIDC)"

text \<open>Modelled from the spec: the auth mode selector says per-user Basic-Auth.\<close>

definition IsAuthTypeUser :: "AuthConfig \<Rightarrow> bool" where
  "IsAuthTypeUser c = (AuthType c = TypeUser)"

record Config =
  DevMode :: bool
  DatabaseReset :: bool
  AimRevert :: bool
  Auth :: AuthConfig

subsection \<open>The cached repositories\<close>

datatype startup_error = Cause db_error | Wrap string startup_error

type_synonym namespace_cache = "Namespace list"

type_synonym role_cache = "Role list"

text \<open>
  Modelled from the spec: the constructor of the cached namespace repository
  (\<^verbatim>\<open>NewNamespaceCachedRepository\<close>, missing from the sources at hand). On
  construction it loads all namespaces from the store, synchronously, and construction
  fails if this load fails; the snapshot it serves is the list it loaded.
\<close>

definition NewNamespaceCachedRepository ::
  "(db_error + Namespace list) \<Rightarrow> db_error + namespace_cache" where
  "NewNamespaceCachedRepository initial_load =
     (case initial_load of Inl err \<Rightarrow> Inl err | Inr namespaces \<Rightarrow> Inr namespaces)"

text \<open>
  Modelled from the spec: \<^verbatim>\<open>GetByCode\<close> of the cached namespace repository (missing
  from the sources at hand) answers from the snapshot; a code that is absent is not
  found, which is not an error.
\<close>

definition GetByCode :: "namespace_cache \<Rightarrow> string \<Rightarrow> Namespace option" where
  "GetByCode cache code = find (\<lambda>n. Code n = code) cache"

text \<open>
  Modelled from the spec: the constructor of the cached role repository
  (\<^verbatim>\<open>NewRoleCachedRepository\<close>, missing from the sources at hand), with the same
  load on construction.
\<close>

definition NewRoleCachedRepository :: "(db_error + Role list) \<Rightarrow> db_error + role_cache" where
  "NewRoleCachedRepository initial_load =
     (case initial_load of Inl err \<Rightarrow> Inl err | Inr roles \<Rightarrow> Inr roles)"

datatype permitted = AllNamespaces | Codes "string list"

text \<open>
  Modelled from the spec: \<^verbatim>\<open>IsAdmin\<close> of the cached role repository (missing from the
  sources at hand): the user is bound to a role flagged admin.
\<close>

definition IsAdmin :: "role_cache \<Rightarrow> string \<Rightarrow> bool" where
  "IsAdmin roles user = list_ex (\<lambda>r. RoleIsAdmin r \<and> user \<in> set (RoleUsers r)) roles"

text \<open>
  Modelled from the spec: \<^verbatim>\<open>GetPermittedNamespaces\<close> of the cached role repository
  (missing from the sources at hand): the union of the codes of the roles that bind the
  user, and every namespace when one of these roles is flagged admin.
\<close>

definition GetPermittedNamespaces :: "role_cache \<Rightarrow> string \<Rightarrow> permitted" where
  "GetPermittedNamespaces roles user =
     (if IsAdmin roles user then AllNamespaces
      else Codes (concat (map RoleNamespaces (filter (\<lambda>r. user \<in> set (RoleUsers r)) roles))))"

text \<open>
  Modelled from the spec: the authorization of an identity in a namespace: the code is
  among the permitted ones, or the caller is admin.
\<close>

definition role_permits :: "role_cache \<Rightarrow> string \<Rightarrow> string \<Rightarrow> bool" where
  "role_permits roles user code =
     (case GetPermittedNamespaces roles user of
        AllNamespaces \<Rightarrow> True
      | Codes cs \<Rightarrow> code \<in> set cs)"

subsection \<open>Handlers, in the order of registration\<close>

datatype handler =
    CorsMiddleware
  | SharedBasicAuth string string
  | SetCookieRoute
  | NamespaceMiddleware namespace_cache
  | OIDCMiddleware "string \<Rightarrow> string option" role_cache
  | UserBasicAuthMiddleware "YamlUserConfig list"
  | CompressMiddleware
  | RecoverMiddleware
  | LoggerMiddleware
  | HealthRoute
  | VersionRoute
  | AimRoutes bool
  | MlflowRoutes
  | MlflowUIRoutes
  | AimUIRoutes
  | AdminRoutes
  | ChooserRoutes

text \<open>
  The application \<^verbatim>\<open>createApp\<close> returns: its handlers in the order of registration,
  and whether the namespace listener has been started (\<^verbatim>\<open>Listen\<close>).
\<close>

record App =
  handlers :: "handler list"
  listening :: bool

subsection \<open>Startup\<close>

text \<open>
  What the collaborators of the startup answer: each constructor that can fail, with
  its error if it does. \<open>oidc_client\<close> is the client \<^verbatim>\<open>auth.NewOIDCClient\<close> builds, seen
  as its token check (the identity of a valid token).
\<close>

record startup =
  storage_factory_error :: "db_error option"
  db_provider_error :: "db_error option"
  db_reset_error :: "db_error option"
  db_migrate_error :: "db_error option"
  default_namespace_error :: "db_error option"
  default_experiment_error :: "db_error option"
  default_context_error :: "db_error option"
  listener_error :: "db_error option"
  namespaces_load :: "db_error + Namespace list"
  roles_load :: "db_error + Role list"
  oidc_client :: "db_error + (string \<Rightarrow> string option)"
  admin_routes_error :: "db_error option"
  chooser_routes_error :: "db_error option"

text \<open>A step that can fail, then the rest.\<close>

definition step :: "string \<Rightarrow> db_error option \<Rightarrow> (startup_error + 'a) \<Rightarrow> startup_error + 'a" where
  "step msg err rest = (case err of Some e \<Rightarrow> Inl (Wrap msg (Cause e)) | None \<Rightarrow> rest)"

text \<open>
  \<^verbatim>\<open>createDBProvider\<close>: the connection, the reset when the configuration asks for it,
  the migration and the three defaults; the first error ends it.
\<close>

definition createDBProvider :: "Config \<Rightarrow> startup \<Rightarrow> startup_error + unit" where
  "createDBProvider config env =
     step ''error connecting to DB'' (db_provider_error env)
       (step ''error resetting database''
          (if DatabaseReset config then db_reset_error env else None)
          (step ''error running database migration'' (db_migrate_error env)
             (step ''error creating default namespace'' (default_namespace_error env)
                (step ''error creating default experiment'' (default_experiment_error env)
                   (step ''error creating default context'' (default_context_error env)
                      (Inr ()))))))"

text \<open>
  The auth middleware the configuration selects, registered after the namespace
  middleware: the \<^verbatim>\<open>switch\<close> of \<^verbatim>\<open>createApp\<close>.
\<close>

definition auth_middleware :: "Config \<Rightarrow> startup \<Rightarrow> role_cache \<Rightarrow> startup_error + handler list" where
  "auth_middleware config env rolesCachedRepository =
     (if IsAuthTypeOIDC (Auth config) then
        (case oidc_client env of
           Inl err \<Rightarrow> Inl (Wrap ''error creating OIDC client'' (Cause err))
         | Inr oidcClient \<Rightarrow> Inr [OIDCMiddleware oidcClient rolesCachedRepository])
      else if IsAuthTypeUser (Auth config) then
        Inr [UserBasicAuthMiddleware (AuthParsedUserPermissions (Auth config))]
      else Inr [])"

text \<open>The handlers registered before the auth middleware of the \<^verbatim>\<open>switch\<close>.\<close>

definition global_middleware :: "Config \<Rightarrow> namespace_cache \<Rightarrow> handler list" where
  "global_middleware config namespaceCachedRepository =
     (if DevMode config then [CorsMiddleware] else []) @
     (if AuthUsername (Auth config) \<noteq> '''' \<and> AuthPassword (Auth config) \<noteq> ''''
      then [SharedBasicAuth (AuthUsername (Auth config)) (AuthPassword (Auth config))]
      else []) @
     [SetCookieRoute, NamespaceMiddleware namespaceCachedRepository]"

text \<open>The handlers registered after it, up to the two routers that can fail.\<close>

definition api_handlers :: "Config \<Rightarrow> handler list" where
  "api_handlers config =
     [CompressMiddleware, RecoverMiddleware, LoggerMiddleware, HealthRoute, VersionRoute,
      AimRoutes (AimRevert config), MlflowRoutes, MlflowUIRoutes, AimUIRoutes]"

text \<open>
  \<^verbatim>\<open>createApp\<close>: the listener, the two cached repositories, \<^verbatim>\<open>Listen\<close>, and then the
  handlers in the order of the source. Every \<^verbatim>\<open>return nil, err\<close> is an \<open>Inl\<close>.
\<close>

definition createApp :: "Config \<Rightarrow> startup \<Rightarrow> startup_error + App" where
  "createApp config env =
     step ''error creating namespace notification listener'' (listener_error env)
       (case NewNamespaceCachedRepository (namespaces_load env) of
          Inl err \<Rightarrow> Inl (Wrap ''error creating namespace repository'' (Cause err))
        | Inr namespaceCachedRepository \<Rightarrow>
            (case NewRoleCachedRepository (roles_load env) of
               Inl err \<Rightarrow> Inl (Wrap ''error creating roles repository'' (Cause err))
             | Inr rolesCachedRepository \<Rightarrow>
                 (case auth_middleware config env rolesCachedRepository of
                    Inl err \<Rightarrow> Inl err
                  | Inr auth_handlers \<Rightarrow>
                      step ''error initializing admin routes'' (admin_routes_error env)
                        (step ''error initializing chooser routes'' (chooser_routes_error env)
                           (Inr \<lparr> handlers =
                                    global_middleware config namespaceCachedRepository @
                                    auth_handlers @ api_handlers config @
                                    [AdminRoutes, ChooserRoutes],
                                  listening = True \<rparr>)))))"

datatype server = Server App

text \<open>
  \<^verbatim>\<open>NewServer\<close>: the artifact storage factory, the database provider, the
  application; a server only when all three are there.
\<close>

definition NewServer :: "Config \<Rightarrow> startup \<Rightarrow> startup_error + server" where
  "NewServer config env =
     step ''error creating artifact storage factory'' (storage_factory_error env)
       (case createDBProvider config env of
          Inl err \<Rightarrow> Inl err
        | Inr db \<Rightarrow>
            (case createApp config env of
               Inl err \<Rightarrow> Inl (Wrap ''error creating application'' err)
             | Inr app \<Rightarrow> Inr (Server app)))"

subsection \<open>Requests\<close>

datatype credentials =
    NoCredentials
  | BasicCredentials string string
  | BearerToken string

text \<open>
  A request that names a namespace: the code in its path, the rest of the path, and the
  credentials it carries.
\<close>

record request =
  req_namespace :: string
  req_path :: string
  req_credentials :: credentials

text \<open>What the handlers attach to the request on its way.\<close>

record ctx =
  ctx_namespace :: "Namespace option"
  ctx_identity :: "string option"

datatype reply =
    Unauthorized
  | Forbidden
  | ErrorResponse api_error

definition namespace_not_found :: "string \<Rightarrow> reply" where
  "namespace_not_found code =
     ErrorResponse (ResourceDoesNotExistError (''unable to find namespace with code: '' @ code))"

text \<open>
  The gate of the \<^verbatim>\<open>basicauth\<close> middleware of the web framework, configured with the
  one shared user: it lets a request through when its Basic credentials are that user's,
  and answers 401 otherwise.
\<close>

definition shared_basic_auth :: "string \<Rightarrow> string \<Rightarrow> credentials \<Rightarrow> bool" where
  "shared_basic_auth username password creds =
     (case creds of
        BasicCredentials u p \<Rightarrow> u = username \<and> p = password
      | _ \<Rightarrow> False)"

text \<open>
  Modelled from the spec: the namespace middleware (\<^verbatim>\<open>middleware.NewNamespaceMiddleware\<close>,
  missing from the sources at hand). It looks the code of the request up in the cached
  namespace repository; not found rejects the request with "does not exist"; found
  attaches the namespace and proceeds.
\<close>

definition namespace_middleware :: "namespace_cache \<Rightarrow> request \<Rightarrow> ctx \<Rightarrow> reply + ctx" where
  "namespace_middleware cache req c =
     (case GetByCode cache (req_namespace req) of
        None \<Rightarrow> Inl (namespace_not_found (req_namespace req))
      | Some ns \<Rightarrow> Inr (c\<lparr> ctx_namespace := Some ns \<rparr>))"

text \<open>
  Modelled from the spec: what the users file grants a user in a namespace: the role
  \<open>''admin''\<close>, or the role of that namespace.
\<close>

definition user_permits :: "YamlUserConfig \<Rightarrow> string \<Rightarrow> bool" where
  "user_permits u code = (''admin'' \<in> set (Roles u) \<or> (''ns:'' @ code) \<in> set (Roles u))"

text \<open>
  Modelled from the spec: the per-user Basic-Auth middleware
  (\<^verbatim>\<open>middleware.NewBasicAuthMiddleware\<close>, missing from the sources at hand). The identity is
  the user name, and the password must match the configured one: a mismatch, an unknown
  user or no Basic credentials is answered 401. A user the configuration does not permit
  into the resolved namespace is answered as if the namespace did not exist.
\<close>

definition user_basic_auth_middleware ::
  "YamlUserConfig list \<Rightarrow> request \<Rightarrow> ctx \<Rightarrow> reply + ctx" where
  "user_basic_auth_middleware users req c =
     (case ctx_namespace c of
        None \<Rightarrow> Inl (ErrorResponse (InternalError ''error getting namespace from context''))
      | Some ns \<Rightarrow>
          (case req_credentials req of
             BasicCredentials name password \<Rightarrow>
               (case find (\<lambda>u. Name u = name) users of
                  None \<Rightarrow> Inl Unauthorized
                | Some u \<Rightarrow>
                    if Password u \<noteq> password then Inl Unauthorized
                    else if user_permits u (Code ns) then Inr (c\<lparr> ctx_identity := Some name \<rparr>)
                    else Inl (namespace_not_found (Code ns)))
           | _ \<Rightarrow> Inl Unauthorized))"

text \<open>
  Modelled from the spec: the OIDC middleware (\<^verbatim>\<open>middleware.NewOIDCMiddleware\<close>,
  missing from the sources at hand). A token the identity provider does not validate is an
  authentication failure; the identity of a valid token is authorized against the cached
  role repository, and a miss is answered as if the namespace did not exist.
\<close>

definition oidc_middleware ::
  "(string \<Rightarrow> string option) \<Rightarrow> role_cache \<Rightarrow> request \<Rightarrow> ctx \<Rightarrow> reply + ctx" where
  "oidc_middleware verify roles req c =
     (case ctx_namespace c of
        None \<Rightarrow> Inl (ErrorResponse (InternalError ''error getting namespace from context''))
      | Some ns \<Rightarrow>
          (case req_credentials req of
             BearerToken token \<Rightarrow>
               (case verify token of
                  None \<Rightarrow> Inl Unauthorized
                | Some user \<Rightarrow>
                    if role_permits roles user (Code ns)
                    then Inr (c\<lparr> ctx_identity := Some user \<rparr>)
                    else Inl (namespace_not_found (Code ns)))
           | _ \<Rightarrow> Inl Unauthorized))"

text \<open>
  One handler on a request that names a namespace: \<open>Inl\<close> answers the request and ends
  the chain, \<open>Inr\<close> is \<^verbatim>\<open>c.Next()\<close>. The route \<^verbatim>\<open>/set-cookie/:access_token\<close> is at
  the root, so it does not match such a request; the other middlewares of the framework
  pass the request on, and the routers are where a request that got through is served.
\<close>

fun handle :: "handler \<Rightarrow> request \<Rightarrow> ctx \<Rightarrow> reply + ctx" where
  "handle (SharedBasicAuth username password) req c =
     (if shared_basic_auth username password (req_credentials req) then Inr c
      else Inl Unauthorized)"
| "handle (NamespaceMiddleware cache) req c = namespace_middleware cache req c"
| "handle (OIDCMiddleware verify roles) req c = oidc_middleware verify roles req c"
| "handle (UserBasicAuthMiddleware users) req c = user_basic_auth_middleware users req c"
| "handle _ req c = Inr c"

fun run_chain :: "handler list \<Rightarrow> request \<Rightarrow> ctx \<Rightarrow> reply + ctx" where
  "run_chain [] req c = Inr c"
| "run_chain (h # hs) req c =
     (case handle h req c of
        Inl r \<Rightarrow> Inl r
      | Inr c' \<Rightarrow> run_chain hs req c')"

text \<open>
  The gate in front of the business handlers: the rejection, or the namespace and the
  identity the request reaches them with.
\<close>

definition Authorize :: "App \<Rightarrow> request \<Rightarrow> reply + ctx" where
  "Authorize app req =
     run_chain (handlers app) req \<lparr> ctx_namespace = None, ctx_identity = None \<rparr>"

text \<open>Which handlers resolve an identity, and which is the shared gate.\<close>

fun resolves_identity :: "handler \<Rightarrow> bool" where
  "resolves_identity (OIDCMiddleware verify roles) = True"
| "resolves_identity (UserBasicAuthMiddleware users) = True"
| "resolves_identity _ = False"

fun checks_credentials :: "handler \<Rightarrow> bool" where
  "checks_credentials (SharedBasicAuth username password) = True"
| "checks_credentials h = resolves_identity h"

fun resolves_namespace :: "handler \<Rightarrow> bool" where
  "resolves_namespace (NamespaceMiddleware cache) = True"
| "resolves_namespace _ = False"

text \<open>
  The claim "namespace resolution precedes every credential check", on a list of
  handlers: no handler that checks credentials stands before the first one that resolves
  the namespace.
\<close>

definition namespace_first :: "handler list \<Rightarrow> bool" where
  "namespace_first hs =
     (list_ex resolves_namespace hs \<and>
      \<not> list_ex checks_credentials (takeWhile (\<lambda>h. \<not> resolves_namespace h) hs))"

text \<open>The same for the handlers that resolve an identity only.\<close>

definition namespace_before_identity :: "handler list \<Rightarrow> bool" where
  "namespace_before_identity hs =
     (list_ex resolves_namespace hs \<and>
      \<not> list_ex resolves_identity (takeWhile (\<lambda>h. \<not> resolves_namespace h) hs))"

definition shared_gate_configured :: "Config \<Rightarrow> bool" where
  "shared_gate_configured config =
     (AuthUsername (Auth config) \<noteq> '''' \<and> AuthPassword (Auth config) \<noteq> '''')"

definition passes_shared_gate :: "Config \<Rightarrow> credentials \<Rightarrow> bool" where
  "passes_shared_gate config creds =
     (if shared_gate_configured config
      then shared_basic_auth (AuthUsername (Auth config)) (AuthPassword (Auth config)) creds
      else True)"

subsection \<open>The scenario of the test suite\<close>

definition test_users :: "YamlUserConfig list" where
  "test_users =
     [\<lparr> Name = ''user1'', Roles = [''ns:namespace1'', ''ns:namespace2''],
        Password = ''user1password'' \<rparr>,
      \<lparr> Name = ''user2'', Roles = [''ns:namespace2'', ''ns:namespace3''],
        Password = ''user2password'' \<rparr>,
      \<lparr> Name = ''user3'', Roles = [''admin''], Password = ''user3password'' \<rparr>]"

definition test_config :: Config where
  "test_config =
     \<lparr> DevMode = False, DatabaseReset = False, AimRevert = False,
       Auth = \<lparr> AuthType = TypeUser, AuthUsername = '''', AuthPassword = '''',
                AuthParsedUserPermissions = test_users \<rparr> \<rparr>"

definition test_namespace :: "nat \<Rightarrow> string \<Rightarrow> string \<Rightarrow> Namespace" where
  "test_namespace i code description =
     \<lparr> ID = i, Code = code, Description = description, DefaultExperimentID = Some 0,
       DeletedAt = None \<rparr>"

definition test_namespaces :: "Namespace list" where
  "test_namespaces =
     [test_namespace 1 ''default'' '''',
      test_namespace 2 ''namespace1'' ''Test namespace 1'',
      test_namespace 3 ''namespace2'' ''Test namespace 2'',
      test_namespace 4 ''namespace3'' ''Test namespace 3'']"

definition test_startup :: startup where
  "test_startup =
     \<lparr> storage_factory_error = None, db_provider_error = None, db_reset_error = None,
       db_migrate_error = None, default_namespace_error = None,
       default_experiment_error = None, default_context_error = None,
       listener_error = None, namespaces_load = Inr test_namespaces, roles_load = Inr [],
       oidc_client = Inr (\<lambda>token. None), admin_routes_error = None,
       chooser_routes_error = None \<rparr>"

definition test_app :: App where
  "test_app =
     \<lparr> handlers =
         [SetCookieRoute, NamespaceMiddleware test_namespaces,
          UserBasicAuthMiddleware test_users,
          CompressMiddleware, RecoverMiddleware, LoggerMiddleware, HealthRoute, VersionRoute,
          AimRoutes False, MlflowRoutes, MlflowUIRoutes, AimUIRoutes, AdminRoutes,
          ChooserRoutes],
       listening = True \<rparr>"

definition projects_request :: "string \<Rightarrow> string \<Rightarrow> string \<Rightarrow> request" where
  "projects_request code user password =
     \<lparr> req_namespace = code, req_path = ''/aim/api/projects'',
       req_credentials = BasicCredentials user password \<rparr>"

text \<open>A server with the one shared Basic-Auth user, and a request without credentials.\<close>

definition shared_config :: Config where
  "shared_config =
     \<lparr> DevMode = False, DatabaseReset = False, AimRevert = False,
       Auth = \<lparr> AuthType = TypeUnset, AuthUsername = ''admin'', AuthPassword = ''secret'',
                AuthParsedUserPermissions = [] \<rparr> \<rparr>"

definition shared_app :: App where
  "shared_app =
     \<lparr> handlers =
         [SharedBasicAuth ''admin'' ''secret'', SetCookieRoute,
          NamespaceMiddleware test_namespaces,
          CompressMiddleware, RecoverMiddleware, LoggerMiddleware, HealthRoute, VersionRoute,
          AimRoutes False, MlflowRoutes, MlflowUIRoutes, AimUIRoutes, AdminRoutes,
          ChooserRoutes],
       listening = True \<rparr>"

definition ghost_request :: request where
  "ghost_request =
     \<lparr> req_namespace = ''ghost'', req_path = ''/aim/api/projects'',
       req_credentials = NoCredentials \<rparr>"

text \<open>A server behind an identity provider, with a user bound to two roles.\<close>

definition oidc_config :: Config where
  "oidc_config =
     \<lparr> DevMode = True, DatabaseReset = False, AimRevert = False,
       Auth = \<lparr> AuthType = TypeOIDC, AuthUsername = '''', AuthPassword = '''',
                AuthParsedUserPermissions = [] \<rparr> \<rparr>"

definition oidc_roles :: "Role list" where
  "oidc_roles =
     [\<lparr> RoleName = ''team'', RoleNamespaces = [''namespace1''], RoleIsAdmin = False,
        RoleUsers = [''alice'', ''bob''] \<rparr>,
      \<lparr> RoleName = ''admin'', RoleNamespaces = [], RoleIsAdmin = True,
        RoleUsers = [''alice''] \<rparr>]"

definition oidc_verify :: "string \<Rightarrow> string option" where
  "oidc_verify token =
     (if token = ''token-a'' then Some ''alice''
      else if token = ''token-b'' then Some ''bob'' else None)"

definition oidc_startup :: startup where
  "oidc_startup =
     test_startup\<lparr> roles_load := Inr oidc_roles, oidc_client := Inr oidc_verify \<rparr>"

section \<open>The param repository\<close>

record Param =
  ParamKey :: string
  ParamValue :: string
  ParamRunID :: string

text \<open>
  The \<^verbatim>\<open>params\<close> table: its primary key is the pair of \<^verbatim>\<open>run_uuid\<close> and
  \<^verbatim>\<open>key\<close> (the columns of the \<^verbatim>\<open>ON CONFLICT\<close> clause), so the table is a map
  from that pair to the row's value.
\<close>

type_synonym params_table = "string \<times> string \<rightharpoonup> string"

definition param_pk :: "Param \<Rightarrow> string \<times> string" where
  "param_pk p = (ParamRunID p, ParamKey p)"

text \<open>
  The database handle of the repository: the table, and the errors, if any, that the
  insert and the conflict query report.
\<close>

record params_db =
  params_rows :: params_table
  create_error :: "db_error option"
  select_error :: "db_error option"

record paramConflict =
  ConflictRunID :: string
  ConflictKey :: string
  OldValue :: string
  NewValue :: string

definition String_paramConflict :: "paramConflict \<Rightarrow> string" where
  "String_paramConflict pc =
     ''{run_id: '' @ ConflictRunID pc @ '', key: '' @ ConflictKey pc @
     '', old_value: '' @ OldValue pc @ '', new_value: '' @ NewValue pc @ ''}''"

datatype param_error =
    ParamConflictError string
  | ParamWrap string param_error
  | ParamCause db_error

text \<open>
  One \<^verbatim>\<open>INSERT .. ON CONFLICT (run_uuid, key) DO NOTHING\<close> with the rows of a batch:
  the rows are taken in order, a row whose key is in the table (from before, or from an
  earlier row of the statement) is skipped, and the statement reports the rows it
  inserted.
\<close>

fun insert_do_nothing :: "params_table \<Rightarrow> Param list \<Rightarrow> params_table \<times> nat" where
  "insert_do_nothing tbl [] = (tbl, 0)"
| "insert_do_nothing tbl (p # ps) =
     (case tbl (param_pk p) of
        None \<Rightarrow>
          (case insert_do_nothing (tbl(param_pk p \<mapsto> ParamValue p)) ps of
             (tbl', n) \<Rightarrow> (tbl', Suc n))
      | Some old \<Rightarrow> insert_do_nothing tbl ps)"

text \<open>
  The loop of \<^verbatim>\<open>CreateInBatches\<close>: one statement per batch of \<open>batchSize\<close> rows, the
  rows affected added up.
\<close>

function create_batches ::
  "nat \<Rightarrow> params_table \<Rightarrow> Param list \<Rightarrow> nat \<Rightarrow> params_table \<times> nat" where
  "create_batches batchSize tbl params rowsAffected =
     (if batchSize = 0 \<or> params = [] then (tbl, rowsAffected)
      else (case insert_do_nothing tbl (take batchSize params) of
              (tbl', n) \<Rightarrow>
                create_batches batchSize tbl' (drop batchSize params) (rowsAffected + n)))"
  by pat_completeness auto
termination
  by (relation "measure (\<lambda>(batchSize, tbl, params, rowsAffected). length params)") auto

declare create_batches.simps [simp del]

text \<open>
  \<^verbatim>\<open>CreateInBatches\<close> of the ORM: the error of the statement, or the handle after the
  inserts and the rows affected. A batch size of zero makes the first batch empty, which
  the ORM refuses.
\<close>

definition CreateInBatches ::
  "params_db \<Rightarrow> Param list \<Rightarrow> nat \<Rightarrow> db_error + params_db \<times> nat" where
  "CreateInBatches tx params batchSize =
     (case create_error tx of
        Some err \<Rightarrow> Inl err
      | None \<Rightarrow>
          if batchSize = 0 \<and> params \<noteq> [] then Inl ''empty slice found''
          else (case create_batches batchSize (params_rows tx) params 0 of
                  (tbl, n) \<Rightarrow> Inr (tx\<lparr> params_rows := tbl \<rparr>, n)))"

text \<open>
  The join of \<^verbatim>\<open>findConflictingParams\<close>: the input rows whose key is in the table
  with another value, each with the old and the new value.
\<close>

definition conflicts_of :: "params_table \<Rightarrow> Param list \<Rightarrow> paramConflict list" where
  "conflicts_of tbl params =
     concat (map (\<lambda>p. case tbl (param_pk p) of
                        None \<Rightarrow> []
                      | Some old \<Rightarrow>
                          if ParamValue p \<noteq> old
                          then [\<lparr> ConflictRunID = ParamRunID p, ConflictKey = ParamKey p,
                                  OldValue = old, NewValue = ParamValue p \<rparr>]
                          else []) params)"

definition findConflictingParams :: "params_db \<Rightarrow> Param list \<Rightarrow> param_error + paramConflict list" where
  "findConflictingParams tx params =
     (case select_error tx of
        Some err \<Rightarrow> Inl (ParamWrap ''error fetching params from db'' (ParamCause err))
      | None \<Rightarrow> Inr (conflicts_of (params_rows tx) params))"

text \<open>
  How \<^verbatim>\<open>tx.RowsAffected\<close> reads after the insert. The insert runs on a handle derived
  from \<open>tx\<close> (\<^verbatim>\<open>tx.WithContext(ctx).Clauses(..)\<close>), and the ORM is not part of the
  repository: either the count of the statement is what \<open>tx\<close> shows, or \<open>tx\<close> keeps the
  zero it started the transaction with.
\<close>

datatype rows_affected_reading = CountOfStatement | CounterOfHandle

definition RowsAffected :: "rows_affected_reading \<Rightarrow> nat \<Rightarrow> nat" where
  "RowsAffected reading inserted =
     (case reading of CountOfStatement \<Rightarrow> inserted | CounterOfHandle \<Rightarrow> 0)"

text \<open>The text of a slice of conflicts under \<^verbatim>\<open>%v\<close>.\<close>

fun join_with_space :: "string list \<Rightarrow> string" where
  "join_with_space [] = []"
| "join_with_space [s] = s"
| "join_with_space (s # t # ss) = s @ '' '' @ join_with_space (t # ss)"

definition conflict_message :: "paramConflict list \<Rightarrow> string" where
  "conflict_message cs =
     ''conflicting params found: ['' @ join_with_space (map String_paramConflict cs) @ '']''"

text \<open>The function \<^verbatim>\<open>CreateBatch\<close> runs in the transaction.\<close>

definition create_batch_body ::
  "rows_affected_reading \<Rightarrow> nat \<Rightarrow> Param list \<Rightarrow> params_db \<Rightarrow> param_error + params_db" where
  "create_batch_body reading batchSize params tx =
     (case CreateInBatches tx params batchSize of
        Inl err \<Rightarrow> Inl (ParamWrap ''error creating params in batch'' (ParamCause err))
      | Inr (tx', inserted) \<Rightarrow>
          if RowsAffected reading inserted \<noteq> length params then
            (case findConflictingParams tx' params of
               Inl err \<Rightarrow> Inl (ParamWrap ''error checking for conflicting params'' err)
             | Inr conflictingParams \<Rightarrow>
                 if length conflictingParams > 0
                 then Inl (ParamConflictError (conflict_message conflictingParams))
                 else Inr tx')
          else Inr tx')"

text \<open>
  \<^verbatim>\<open>Transaction\<close> of the ORM: the function runs on the transaction; its error rolls
  the transaction back and is returned, and the database is as it was; otherwise the
  transaction is committed.
\<close>

definition Transaction ::
  "params_db \<Rightarrow> (params_db \<Rightarrow> param_error + params_db) \<Rightarrow> param_error option \<times> params_db" where
  "Transaction db fc =
     (case fc db of
        Inl err \<Rightarrow> (Some err, db)
      | Inr db' \<Rightarrow> (None, db'))"

definition CreateBatch ::
  "rows_affected_reading \<Rightarrow> params_db \<Rightarrow> nat \<Rightarrow> Param list \<Rightarrow> param_error option \<times> params_db" where
  "CreateBatch reading db batchSize params =
     Transaction db (create_batch_body reading batchSize params)"

text \<open>
  The value a key has once the batch is in: the value of the table, and for a key that
  is not in the table the value of the first input row with that key.
\<close>

definition first_input :: "Param list \<Rightarrow> params_table" where
  "first_input params = map_of (map (\<lambda>p. (param_pk p, ParamValue p)) params)"

definition after_insert :: "params_table \<Rightarrow> Param list \<Rightarrow> params_table" where
  "after_insert tbl params k = (case tbl k of Some v \<Rightarrow> Some v | None \<Rightarrow> first_input params k)"

text \<open>The claim's reading of a conflict: the key is in the table from before, with another value.\<close>

definition conflicts_with_table :: "params_table \<Rightarrow> Param \<Rightarrow> bool" where
  "conflicts_with_table tbl p =
     (case tbl (param_pk p) of None \<Rightarrow> False | Some old \<Rightarrow> old \<noteq> ParamValue p)"

text \<open>What the code reports: the key has another value in the table or earlier in the input.\<close>

definition conflicts_with_batch :: "params_table \<Rightarrow> Param list \<Rightarrow> Param \<Rightarrow> bool" where
  "conflicts_with_batch tbl params p =
     (after_insert tbl params (param_pk p) \<noteq> Some (ParamValue p))"

definition is_conflict_error :: "param_error option \<Rightarrow> bool" where
  "is_conflict_error r = (case r of Some (ParamConflictError msg) \<Rightarrow> True | _ \<Rightarrow> False)"

subsection \<open>Sample tables\<close>

definition empty_params_db :: params_db where
  "empty_params_db = \<lparr> params_rows = Map.empty, create_error = None, select_error = None \<rparr>"

definition lr_param :: "string \<Rightarrow> Param" where
  "lr_param v = \<lparr> ParamKey = ''lr'', ParamValue = v, ParamRunID = ''run1'' \<rparr>"

definition seeded_params_db :: params_db where
  "seeded_params_db =
     \<lparr> params_rows = [(''run1'', ''lr'') \<mapsto> ''0.1''], create_error = None,
       select_error = None \<rparr>"

definition batch_size_param :: Param where
  "batch_size_param = \<lparr> ParamKey = ''bs'', ParamValue = ''32'', ParamRunID = ''run1'' \<rparr>"

subsection \<open>The namespace store\<close>

datatype store_error =
    ConstraintViolation string
  | NamespaceNotFound nat

type_synonym namespace_store = "Namespace list"

text \<open>
  Modelled from the spec: the uniqueness check of the namespace store (the store and
  the administrative service over it are missing from the sources at hand). A code is in
  use when an active namespace, that is one that is not deleted, other than the one
  being updated, has it.
\<close>

definition code_in_use :: "namespace_store \<Rightarrow> string \<Rightarrow> nat option \<Rightarrow> bool" where
  "code_in_use store code except =
     list_ex (\<lambda>n. DeletedAt n = None \<and> Code n = code \<and> Some (ID n) \<noteq> except) store"

text \<open>
  Modelled from the spec: the ID a namespace is given at creation, one the store has not
  used.
\<close>

definition next_id :: "namespace_store \<Rightarrow> nat" where
  "next_id store = Suc (fold max (map ID store) 0)"

text \<open>
  Modelled from the spec: \<^verbatim>\<open>Create\<close> of the namespace store. The code of a namespace
  is non-empty and unique among the active namespaces; creating a namespace with a code
  that is empty or in use fails with a constraint violation and leaves the store as it
  was; otherwise the namespace is added under a fresh ID. The messages are those the
  test suite of the admin interface expects.
\<close>

definition CreateNamespace ::
  "namespace_store \<Rightarrow> string \<Rightarrow> string \<Rightarrow> int option \<Rightarrow> store_error option \<times> namespace_store" where
  "CreateNamespace store code description default_experiment =
     (if code = '''' then
        (Some (ConstraintViolation ''The namespace code is invalid.''), store)
      else if code_in_use store code None then
        (Some (ConstraintViolation ''The namespace code is already in use.''), store)
      else
        (None,
         store @ [\<lparr> ID = next_id store, Code = code, Description = description,
                    DefaultExperimentID = default_experiment, DeletedAt = None \<rparr>]))"

text \<open>
  Modelled from the spec: \<^verbatim>\<open>Update\<close> of the namespace store, by the ID of an active
  namespace: it sets the code and the description, and checks the uniqueness of the code
  again, against the other namespaces.
\<close>

definition UpdateNamespace ::
  "namespace_store \<Rightarrow> nat \<Rightarrow> string \<Rightarrow> string \<Rightarrow> store_error option \<times> namespace_store" where
  "UpdateNamespace store i code description =
     (case find (\<lambda>n. ID n = i \<and> DeletedAt n = None) store of
        None \<Rightarrow> (Some (NamespaceNotFound i), store)
      | Some ns \<Rightarrow>
          if code = '''' then
            (Some (ConstraintViolation ''The namespace code is invalid.''), store)
          else if code_in_use store code (Some i) then
            (Some (ConstraintViolation ''The namespace code is already in use.''), store)
          else
            (None,
             map (\<lambda>n. if ID n = i \<and> DeletedAt n = None
                       then n\<lparr> Code := code, Description := description \<rparr> else n) store))"

text \<open>The store of the update test.\<close>

definition update_test_store :: namespace_store where
  "update_test_store =
     [test_namespace 1 ''default'' '''',
      test_namespace 2 ''test2'' ''test namespace 2 description'']"

section \<open>Properties\<close>

subsection \<open>Tag lookup by namespace\<close>

text \<open>
  C7. The tag lookup by namespace discards what it fetched: whenever the fetch succeeds,
  whatever rows it read, the result is the empty list; the call fails exactly when the
  fetch fails, with the fetch's error.
\<close>

theorem GetTagsByNamespace_discards_rows:
  "(\<forall>rows. Find_tags db = Inr rows \<longrightarrow> GetTagsByNamespace db namespaceID = Inr []) \<and>
   (\<forall>e. GetTagsByNamespace db namespaceID = Inl e \<longleftrightarrow> Find_tags db = Inl e)"
  by (simp add: GetTagsByNamespace_def split: sum.splits)

theorem GetTagsByNamespace_discards_rows_witness:
  "Find_tags \<lparr> tags_rows = [\<lparr> TagKey = ''lr'', TagValue = ''0.1'', TagRunID = ''r1'' \<rparr>],
               find_error = None \<rparr>
     = Inr [\<lparr> TagKey = ''lr'', TagValue = ''0.1'', TagRunID = ''r1'' \<rparr>] \<and>
   GetTagsByNamespace
     \<lparr> tags_rows = [\<lparr> TagKey = ''lr'', TagValue = ''0.1'', TagRunID = ''r1'' \<rparr>],
       find_error = None \<rparr> 1 = Inr []"
proof -
  let ?db = "\<lparr> tags_rows = [\<lparr> TagKey = ''lr'', TagValue = ''0.1'', TagRunID = ''r1'' \<rparr>],
               find_error = None \<rparr>"
  have f: "Find_tags ?db = Inr [\<lparr> TagKey = ''lr'', TagValue = ''0.1'', TagRunID = ''r1'' \<rparr>]"
    by (simp add: Find_tags_def)
  from GetTagsByNamespace_discards_rows [of ?db 1] f
  have "GetTagsByNamespace ?db 1 = Inr []" by blast
  with f show ?thesis by simp
qed

subsection \<open>Project activity\<close>

lemma activity_total_upd:
  assumes "finite (dom m)"
  shows "activity_total (m(k \<mapsto> v)) = v + (\<Sum>x \<in> dom m - {k}. the (m x))"
proof -
  have "activity_total (m(k \<mapsto> v)) = (\<Sum>x \<in> insert k (dom m - {k}). the ((m(k \<mapsto> v)) x))"
    unfolding activity_total_def by (rule sum.cong) auto
  also have "\<dots> = the ((m(k \<mapsto> v)) k) + (\<Sum>x \<in> dom m - {k}. the ((m(k \<mapsto> v)) x))"
    using assms by (subst sum.insert) auto
  also have "\<dots> = v + (\<Sum>x \<in> dom m - {k}. the ((m(k \<mapsto> v)) x))"
    by simp
  also have "\<dots> = v + (\<Sum>x \<in> dom m - {k}. the (m x))"
    by (rule arg_cong [where f = "\<lambda>z. v + z"], rule sum.cong) auto
  finally show ?thesis .
qed

lemma activity_total_split:
  assumes "finite (dom m)"
  shows "activity_total m = (case m k of None \<Rightarrow> 0 | Some c \<Rightarrow> c) + (\<Sum>x \<in> dom m - {k}. the (m x))"
proof (cases "m k")
  case None
  then have "dom m - {k} = dom m" by auto
  with None show ?thesis by (simp add: activity_total_def)
next
  case (Some c)
  then have "k \<in> dom m" by auto
  with assms Some show ?thesis by (simp add: activity_total_def sum.remove)
qed

lemma activity_total_bump:
  assumes "finite (dom m)"
  shows "activity_total (m(k \<mapsto> (case m k of None \<Rightarrow> 0 | Some c \<Rightarrow> c) + 1)) = activity_total m + 1"
  using activity_total_upd [OF assms, of k] activity_total_split [OF assms, of k] by simp

lemma activity_loop_counts:
  "finite (dom a) \<Longrightarrow>
   activity_loop hk tz (a, n, r) runs = (a', n', r') \<Longrightarrow>
     finite (dom a') \<and>
     activity_total a' = activity_total a + int (length runs) \<and>
     r' = r + int (length (filter (\<lambda>run. LifecycleStage run = LifecycleStageDeleted) runs)) \<and>
     n' = n + int (length (filter (\<lambda>run. LifecycleStage run \<noteq> LifecycleStageDeleted \<and> Status run = StatusRunning) runs))"
proof (induction runs arbitrary: a n r)
  case Nil
  then show ?case by simp
next
  case (Cons run runs)
  obtain a1 n1 r1 where st: "activity_step hk tz (a, n, r) run = (a1, n1, r1)"
    by (cases "activity_step hk tz (a, n, r) run") auto
  have fin1: "finite (dom a1)"
    using st Cons.prems(1) by (auto simp: activity_step_def Let_def)
  have tot1: "activity_total a1 = activity_total a + 1"
    using st activity_total_bump [OF Cons.prems(1)] by (auto simp: activity_step_def Let_def)
  have r1: "r1 = r + (if LifecycleStage run = LifecycleStageDeleted then 1 else 0)"
    using st by (auto simp: activity_step_def Let_def split: if_splits)
  have n1: "n1 = n + (if LifecycleStage run \<noteq> LifecycleStageDeleted \<and> Status run = StatusRunning then 1 else 0)"
    using st by (auto simp: activity_step_def Let_def split: if_splits)
  from Cons.prems(2) st have "activity_loop hk tz (a1, n1, r1) runs = (a', n', r')" by simp
  from Cons.IH [OF fin1 this] tot1 r1 n1 show ?case by simp
qed


text \<open>
  C9. When the run repository returns a list of runs (and the count of experiments is
  read), \<^verbatim>\<open>GetProjectActivity\<close> answers with \<open>NumRuns\<close> the length of the whole
  list, deleted runs included; the counters of the activity map sum to \<open>NumRuns\<close>, one
  increment per run; \<open>NumArchivedRuns\<close> counts exactly the deleted runs and
  \<open>NumActiveRuns\<close> exactly the running runs that are not deleted, so a deleted run is
  archived and never active, whatever its status.
\<close>

theorem GetProjectActivity_counts:
  assumes runs: "GetByNamespaceID s namespaceID = Inr runs"
    and exps: "GetCountOfActiveExperiments s namespaceID = Inr n"
  shows "\<exists>act. GetProjectActivity s hour_key namespaceID tzOffset = Inr act \<and>
           NumRuns act = int (length runs) \<and>
           finite (dom (ActivityMap act)) \<and>
           activity_total (ActivityMap act) = NumRuns act \<and>
           NumArchivedRuns act =
             int (length (filter (\<lambda>run. LifecycleStage run = LifecycleStageDeleted) runs)) \<and>
           NumActiveRuns act =
             int (length (filter (\<lambda>run. LifecycleStage run \<noteq> LifecycleStageDeleted \<and>
                                        Status run = StatusRunning) runs))"
proof -
  obtain a na nr where loop: "activity_loop hour_key tzOffset (Map.empty, 0, 0) runs = (a, na, nr)"
    by (cases "activity_loop hour_key tzOffset (Map.empty, 0, 0) runs") auto
  have e: "activity_total (Map.empty :: string \<rightharpoonup> int) = 0"
    by (simp add: activity_total_def)
  from activity_loop_counts [OF _ loop] e
  have facts: "finite (dom a)" "activity_total a = int (length runs)"
    "nr = int (length (filter (\<lambda>run. LifecycleStage run = LifecycleStageDeleted) runs))"
    "na = int (length (filter (\<lambda>run. LifecycleStage run \<noteq> LifecycleStageDeleted \<and>
                                        Status run = StatusRunning) runs))"
    by simp_all
  have "GetProjectActivity s hour_key namespaceID tzOffset =
          Inr \<lparr> NumRuns = int (length runs), ActivityMap = a, NumActiveRuns = na,
                NumExperiments = n, NumArchivedRuns = nr \<rparr>"
    by (simp add: GetProjectActivity_def runs exps loop)
  with facts show ?thesis by simp
qed

theorem GetProjectActivity_counts_witness:
  "\<exists>act. GetProjectActivity demo_service (\<lambda>ms tz. if ms < 3600000 then ''h0'' else ''h1'') 1 0 = Inr act \<and>
     NumRuns act = 3 \<and> activity_total (ActivityMap act) = 3 \<and>
     NumArchivedRuns act = 1 \<and> NumActiveRuns act = 1 \<and>
     ActivityMap act ''h0'' = Some 2 \<and> ActivityMap act ''h1'' = Some 1"
proof -
  let ?hk = "\<lambda>(ms::int) (tz::int). if ms < 3600000 then ''h0'' else ''h1''"
  have r: "GetByNamespaceID demo_service 1 = Inr demo_runs"
    and c: "GetCountOfActiveExperiments demo_service 1 = Inr 1"
    by (simp_all add: demo_service_def)
  from GetProjectActivity_counts [OF r c, of ?hk 0]
  obtain act where act: "GetProjectActivity demo_service ?hk 1 0 = Inr act"
    "NumRuns act = int (length demo_runs)"
    "activity_total (ActivityMap act) = NumRuns act"
    "NumArchivedRuns act =
       int (length (filter (\<lambda>run. LifecycleStage run = LifecycleStageDeleted) demo_runs))"
    "NumActiveRuns act =
       int (length (filter (\<lambda>run. LifecycleStage run \<noteq> LifecycleStageDeleted \<and>
                                  Status run = StatusRunning) demo_runs))"
    by blast
  have m: "ActivityMap act ''h0'' = Some 2 \<and> ActivityMap act ''h1'' = Some 1"
    using act(1)
    by (auto simp: GetProjectActivity_def demo_service_def demo_runs_def activity_step_def)
  from act m show ?thesis
    by (intro exI [of _ act]) (simp add: demo_runs_def)
qed

subsection \<open>Project params\<close>





subsection \<open>Startup and the chain of handlers\<close>

lemma step_Inr: "step msg err rest = Inr x \<longleftrightarrow> err = None \<and> rest = Inr x"
  by (simp add: step_def split: option.splits)

lemma step_Some: "step msg (Some e) rest = Inl (Wrap msg (Cause e))"
  by (simp add: step_def)

lemma step_None: "step msg None rest = rest"
  by (simp add: step_def)

lemma createApp_handlers:
  assumes "createApp config env = Inr app"
  shows "\<exists>cache roles ah.
           namespaces_load env = Inr cache \<and> roles_load env = Inr roles \<and>
           auth_middleware config env roles = Inr ah \<and>
           handlers app =
             global_middleware config cache @ ah @ api_handlers config @
             [AdminRoutes, ChooserRoutes]"
  using assms
  by (auto simp: createApp_def step_Inr NewNamespaceCachedRepository_def
      NewRoleCachedRepository_def split: sum.splits)

lemma run_chain_append:
  "run_chain (hs @ hs') req c =
     (case run_chain hs req c of Inl r \<Rightarrow> Inl r | Inr c' \<Rightarrow> run_chain hs' req c')"
  by (induction hs arbitrary: c) (auto split: sum.splits)

lemma run_chain_api:
  "run_chain (api_handlers config) req c = Inr c"
  by (simp add: api_handlers_def)

lemma run_chain_global:
  "run_chain (global_middleware config cache) req c =
     (if passes_shared_gate config (req_credentials req)
      then namespace_middleware cache req c else Inl Unauthorized)"
  by (simp add: global_middleware_def passes_shared_gate_def shared_gate_configured_def
      run_chain_append split: sum.splits)

lemma Authorize_created:
  assumes "createApp config env = Inr app"
  shows "\<exists>cache roles ah.
           namespaces_load env = Inr cache \<and> roles_load env = Inr roles \<and>
           auth_middleware config env roles = Inr ah \<and>
           (\<forall>req. Authorize app req =
             (if passes_shared_gate config (req_credentials req)
              then (case namespace_middleware cache req
                           \<lparr> ctx_namespace = None, ctx_identity = None \<rparr> of
                      Inl r \<Rightarrow> Inl r
                    | Inr c \<Rightarrow> run_chain ah req c)
              else Inl Unauthorized))"
proof -
  from createApp_handlers [OF assms] obtain cache roles ah where
    h: "namespaces_load env = Inr cache" "roles_load env = Inr roles"
       "auth_middleware config env roles = Inr ah"
       "handlers app = global_middleware config cache @ ah @ api_handlers config @
             [AdminRoutes, ChooserRoutes]"
    by blast
  have "Authorize app req =
             (if passes_shared_gate config (req_credentials req)
              then (case namespace_middleware cache req
                           \<lparr> ctx_namespace = None, ctx_identity = None \<rparr> of
                      Inl r \<Rightarrow> Inl r
                    | Inr c \<Rightarrow> run_chain ah req c)
              else Inl Unauthorized)" for req
    by (simp add: Authorize_def h(4) run_chain_append run_chain_global run_chain_api
        split: sum.splits)
  with h show ?thesis by blast
qed

lemma GetByCode_Code: "GetByCode cache code = Some ns \<Longrightarrow> Code ns = code"
  by (auto simp: GetByCode_def find_Some_iff)

lemma global_order:
  "takeWhile (\<lambda>h. \<not> resolves_namespace h) (global_middleware config cache @ rest) =
     (if DevMode config then [CorsMiddleware] else []) @
     (if shared_gate_configured config
      then [SharedBasicAuth (AuthUsername (Auth config)) (AuthPassword (Auth config))]
      else []) @ [SetCookieRoute]"
  by (simp add: global_middleware_def shared_gate_configured_def)

lemma global_has_namespace:
  "list_ex resolves_namespace (global_middleware config cache @ rest)"
  by (simp add: global_middleware_def)

lemma test_app_created: "createApp test_config test_startup = Inr test_app"
  by (simp add: createApp_def step_def test_startup_def test_config_def test_app_def
      NewNamespaceCachedRepository_def NewRoleCachedRepository_def auth_middleware_def
      IsAuthTypeOIDC_def IsAuthTypeUser_def global_middleware_def api_handlers_def)

lemma shared_app_created: "createApp shared_config test_startup = Inr shared_app"
  by (simp add: createApp_def step_def test_startup_def shared_config_def shared_app_def
      NewNamespaceCachedRepository_def NewRoleCachedRepository_def auth_middleware_def
      IsAuthTypeOIDC_def IsAuthTypeUser_def global_middleware_def api_handlers_def)

lemma created_order:
  assumes "createApp config env = Inr app"
  shows "namespace_before_identity (handlers app)"
    and "namespace_first (handlers app) \<longleftrightarrow> \<not> shared_gate_configured config"
proof -
  from createApp_handlers [OF assms] obtain cache roles ah where
    h: "handlers app = global_middleware config cache @ ah @ api_handlers config @
             [AdminRoutes, ChooserRoutes]"
    by blast
  show "namespace_before_identity (handlers app)"
    unfolding namespace_before_identity_def h
    by (simp only: global_order global_has_namespace) simp
  show "namespace_first (handlers app) \<longleftrightarrow> \<not> shared_gate_configured config"
    unfolding namespace_first_def h
    by (simp only: global_order global_has_namespace) simp
qed

lemma absent_namespace_reply:
  assumes app: "createApp config env = Inr app"
    and load: "namespaces_load env = Inr cache"
    and absent: "GetByCode cache (req_namespace req) = None"
  shows "Authorize app req =
           (if passes_shared_gate config (req_credentials req)
            then Inl (namespace_not_found (req_namespace req)) else Inl Unauthorized)"
proof -
  from Authorize_created [OF app] load obtain roles ah where
    a: "\<forall>req. Authorize app req =
             (if passes_shared_gate config (req_credentials req)
              then (case namespace_middleware cache req
                           \<lparr> ctx_namespace = None, ctx_identity = None \<rparr> of
                      Inl r \<Rightarrow> Inl r
                    | Inr c \<Rightarrow> run_chain ah req c)
              else Inl Unauthorized)"
    by auto
  show ?thesis
    by (simp add: a namespace_middleware_def absent)
qed

lemma user_mode_chain:
  assumes app: "createApp config env = Inr app"
    and load: "namespaces_load env = Inr cache"
    and mode: "AuthType (Auth config) = TypeUser"
    and gate: "passes_shared_gate config (req_credentials req)"
  shows "Authorize app req =
           (case namespace_middleware cache req \<lparr> ctx_namespace = None, ctx_identity = None \<rparr> of
              Inl r \<Rightarrow> Inl r
            | Inr c \<Rightarrow>
                user_basic_auth_middleware (AuthParsedUserPermissions (Auth config)) req c)"
proof -
  from Authorize_created [OF app] load obtain roles ah where
    ah: "auth_middleware config env roles = Inr ah"
    and a: "\<forall>req. Authorize app req =
             (if passes_shared_gate config (req_credentials req)
              then (case namespace_middleware cache req
                           \<lparr> ctx_namespace = None, ctx_identity = None \<rparr> of
                      Inl r \<Rightarrow> Inl r
                    | Inr c \<Rightarrow> run_chain ah req c)
              else Inl Unauthorized)"
    by auto
  from ah mode have "ah = [UserBasicAuthMiddleware (AuthParsedUserPermissions (Auth config))]"
    by (auto simp: auth_middleware_def IsAuthTypeOIDC_def IsAuthTypeUser_def)
  with a gate show ?thesis
    by (simp split: sum.splits)
qed

lemma oidc_mode_chain:
  assumes app: "createApp config env = Inr app"
    and load: "namespaces_load env = Inr cache"
    and roles: "roles_load env = Inr roles"
    and client: "oidc_client env = Inr verify"
    and mode: "AuthType (Auth config) = TypeOIDC"
    and gate: "passes_shared_gate config (req_credentials req)"
  shows "Authorize app req =
           (case namespace_middleware cache req \<lparr> ctx_namespace = None, ctx_identity = None \<rparr> of
              Inl r \<Rightarrow> Inl r
            | Inr c \<Rightarrow> oidc_middleware verify roles req c)"
proof -
  from Authorize_created [OF app] load roles obtain ah where
    ah: "auth_middleware config env roles = Inr ah"
    and a: "\<forall>req. Authorize app req =
             (if passes_shared_gate config (req_credentials req)
              then (case namespace_middleware cache req
                           \<lparr> ctx_namespace = None, ctx_identity = None \<rparr> of
                      Inl r \<Rightarrow> Inl r
                    | Inr c \<Rightarrow> run_chain ah req c)
              else Inl Unauthorized)"
    by auto
  from ah mode client have "ah = [OIDCMiddleware verify roles]"
    by (auto simp: auth_middleware_def IsAuthTypeOIDC_def)
  with a gate show ?thesis
    by (simp split: sum.splits)
qed

lemma handle_never_forbidden: "handle h req c \<noteq> Inl Forbidden"
  by (cases h)
    (auto simp: namespace_middleware_def user_basic_auth_middleware_def oidc_middleware_def
      namespace_not_found_def split: option.splits credentials.splits)

lemma run_chain_never_forbidden: "run_chain hs req c \<noteq> Inl Forbidden"
  by (induction hs arbitrary: c) (auto simp: handle_never_forbidden split: sum.splits)

text \<open>
  C6. Startup fails when any of its first three steps fails: if the namespace
  notification listener cannot be created, or the initial load of the cached namespace
  repository or of the cached role repository fails, then \<^verbatim>\<open>createApp\<close> returns an
  error, and so does \<^verbatim>\<open>NewServer\<close>: no server is produced, so nothing can listen
  with an empty cache or without the subscription.
\<close>

theorem startup_failure_is_fatal:
  assumes "(\<exists>e. listener_error env = Some e) \<or> (\<exists>e. namespaces_load env = Inl e) \<or>
           (\<exists>e. roles_load env = Inl e)"
  shows "(\<exists>err. createApp config env = Inl err) \<and>
         (\<exists>err. NewServer config env = Inl err) \<and>
         (\<forall>srv. NewServer config env \<noteq> Inr srv)"
proof -
  have a: "\<exists>err. createApp config env = Inl err"
    using assms
    by (auto simp: createApp_def step_def NewNamespaceCachedRepository_def
        NewRoleCachedRepository_def split: option.splits sum.splits)
  then have b: "\<exists>err. NewServer config env = Inl err"
    by (auto simp: NewServer_def step_def split: option.splits sum.splits)
  from a b show ?thesis by auto
qed

theorem startup_failure_is_fatal_witness:
  "NewServer test_config (test_startup\<lparr> namespaces_load := Inl ''connection refused'' \<rparr>) =
     Inl (Wrap ''error creating application''
            (Wrap ''error creating namespace repository'' (Cause ''connection refused''))) \<and>
   (\<forall>srv. NewServer test_config (test_startup\<lparr> namespaces_load := Inl ''connection refused'' \<rparr>)
       \<noteq> Inr srv)"
proof -
  let ?env = "test_startup\<lparr> namespaces_load := Inl ''connection refused'' \<rparr>"
  have "(\<exists>e. listener_error ?env = Some e) \<or> (\<exists>e. namespaces_load ?env = Inl e) \<or>
        (\<exists>e. roles_load ?env = Inl e)"
    by simp
  from startup_failure_is_fatal [OF this, of test_config]
  have n: "\<forall>srv. NewServer test_config ?env \<noteq> Inr srv" by blast
  have "NewServer test_config ?env =
     Inl (Wrap ''error creating application''
            (Wrap ''error creating namespace repository'' (Cause ''connection refused'')))"
    by (simp add: NewServer_def createApp_def createDBProvider_def step_def test_startup_def
        test_config_def NewNamespaceCachedRepository_def)
  with n show ?thesis by simp
qed

text \<open>
  With the one shared Basic-Auth user configured, the gate of that user is registered
  before the namespace middleware: a request without credentials that names a namespace
  that does not exist is answered 401, not "does not exist".
\<close>

theorem namespace_check_not_first_counterexample:
  "createApp shared_config test_startup = Inr shared_app \<and>
   GetByCode test_namespaces (req_namespace ghost_request) = None \<and>
   Authorize shared_app ghost_request = Inl Unauthorized \<and>
   Authorize shared_app ghost_request \<noteq> Inl (namespace_not_found ''ghost'') \<and>
   \<not> namespace_first (handlers shared_app)"
proof -
  have a: "GetByCode test_namespaces (req_namespace ghost_request) = None"
    by (simp add: GetByCode_def test_namespaces_def test_namespace_def ghost_request_def)
  have b: "Authorize shared_app ghost_request = Inl Unauthorized"
    by (simp add: Authorize_def shared_app_def ghost_request_def shared_basic_auth_def)
  have c: "\<not> namespace_first (handlers shared_app)"
    by (simp add: namespace_first_def shared_app_def)
  from a b c shared_app_created show ?thesis
    by (simp add: namespace_not_found_def)
qed

text \<open>
  C1, as the code has it. In the handlers \<^verbatim>\<open>createApp\<close> registers, the namespace
  middleware stands before every handler that resolves an identity (OIDC, per-user
  Basic-Auth); it stands before every credential check exactly when the shared Basic-Auth
  user is not configured, for that gate is registered first. So a request that names a
  namespace absent from the cached namespace repository is rejected with "does not
  exist", whatever per-user or OIDC credentials it carries, once it has passed the shared
  gate (which it does when the gate is not configured); a request that does not pass the
  shared gate is answered 401 before the namespace is looked up.
\<close>

theorem namespace_resolved_before_identity:
  assumes app: "createApp config env = Inr app"
    and load: "namespaces_load env = Inr cache"
    and absent: "GetByCode cache (req_namespace req) = None"
  shows "namespace_before_identity (handlers app) \<and>
         (namespace_first (handlers app) \<longleftrightarrow> \<not> shared_gate_configured config) \<and>
         Authorize app req =
           (if passes_shared_gate config (req_credentials req)
            then Inl (namespace_not_found (req_namespace req)) else Inl Unauthorized)"
  using created_order [OF app] absent_namespace_reply [OF app load absent] by simp

theorem namespace_resolved_before_identity_witness:
  "namespace_before_identity (handlers test_app) \<and>
   namespace_first (handlers test_app) \<and>
   Authorize test_app (projects_request ''ghost'' ''user1'' ''user1password'') =
     Inl (ErrorResponse (ResourceDoesNotExistError ''unable to find namespace with code: ghost''))"
proof -
  let ?req = "projects_request ''ghost'' ''user1'' ''user1password''"
  have load: "namespaces_load test_startup = Inr test_namespaces"
    by (simp add: test_startup_def)
  have absent: "GetByCode test_namespaces (req_namespace ?req) = None"
    by (simp add: GetByCode_def test_namespaces_def test_namespace_def projects_request_def)
  have gate: "passes_shared_gate test_config (req_credentials ?req)"
    and ns: "\<not> shared_gate_configured test_config"
    by (simp_all add: passes_shared_gate_def shared_gate_configured_def test_config_def)
  from namespace_resolved_before_identity [OF test_app_created load absent] gate ns
  show ?thesis
    by (simp add: namespace_not_found_def projects_request_def)
qed

text \<open>
  C3. The scenario of the test suite: with the users file granting user1 the namespaces 1
  and 2, user2 the namespaces 2 and 3 and user3 the admin role, and the three namespaces
  in place, a request of user1 to namespace1 is served, a request of user1 to namespace3
  is rejected with "does not exist", and a request of user3 to namespace3 is served.
\<close>

theorem scenario_of_the_test_suite:
  "createApp test_config test_startup = Inr test_app \<and>
   Authorize test_app (projects_request ''namespace1'' ''user1'' ''user1password'') =
     Inr \<lparr> ctx_namespace = Some (test_namespace 2 ''namespace1'' ''Test namespace 1''),
           ctx_identity = Some ''user1'' \<rparr> \<and>
   Authorize test_app (projects_request ''namespace3'' ''user1'' ''user1password'') =
     Inl (ErrorResponse (ResourceDoesNotExistError
            ''unable to find namespace with code: namespace3'')) \<and>
   Authorize test_app (projects_request ''namespace3'' ''user3'' ''user3password'') =
     Inr \<lparr> ctx_namespace = Some (test_namespace 4 ''namespace3'' ''Test namespace 3''),
           ctx_identity = Some ''user3'' \<rparr>"
proof -
  have a: "Authorize test_app (projects_request ''namespace1'' ''user1'' ''user1password'') =
     Inr \<lparr> ctx_namespace = Some (test_namespace 2 ''namespace1'' ''Test namespace 1''),
           ctx_identity = Some ''user1'' \<rparr>"
    by (simp add: Authorize_def test_app_def projects_request_def namespace_middleware_def
        GetByCode_def test_namespaces_def test_namespace_def user_basic_auth_middleware_def
        test_users_def user_permits_def)
  have b: "Authorize test_app (projects_request ''namespace3'' ''user1'' ''user1password'') =
     Inl (ErrorResponse (ResourceDoesNotExistError
            ''unable to find namespace with code: namespace3''))"
    by (simp add: Authorize_def test_app_def projects_request_def namespace_middleware_def
        GetByCode_def test_namespaces_def test_namespace_def user_basic_auth_middleware_def
        test_users_def user_permits_def namespace_not_found_def)
  have c: "Authorize test_app (projects_request ''namespace3'' ''user3'' ''user3password'') =
     Inr \<lparr> ctx_namespace = Some (test_namespace 4 ''namespace3'' ''Test namespace 3''),
           ctx_identity = Some ''user3'' \<rparr>"
    by (simp add: Authorize_def test_app_def projects_request_def namespace_middleware_def
        GetByCode_def test_namespaces_def test_namespace_def user_basic_auth_middleware_def
        test_users_def user_permits_def)
  from test_app_created a b c show ?thesis by simp
qed

text \<open>
  C2. Under the per-user scheme, for a user who has authenticated: a request to a
  namespace that exists and that the user is not permitted into, and a request to a
  namespace that does not exist, are rejected with the same payload, the reason code
  "resource does not exist" with the same message around the code that was asked for;
  and no request at all is answered "forbidden".
\<close>

theorem existence_hiding:
  assumes app: "createApp config env = Inr app"
    and load: "namespaces_load env = Inr cache"
    and mode: "AuthType (Auth config) = TypeUser"
    and gate: "passes_shared_gate config (BasicCredentials name password)"
    and user: "find (\<lambda>u. Name u = name) (AuthParsedUserPermissions (Auth config)) = Some u"
    and pw: "Password u = password"
    and c1: "GetByCode cache C1 = Some ns"
    and denied: "\<not> user_permits u C1"
    and c2: "GetByCode cache C2 = None"
  shows "Authorize app \<lparr> req_namespace = C1, req_path = path,
                         req_credentials = BasicCredentials name password \<rparr>
           = Inl (namespace_not_found C1) \<and>
         Authorize app \<lparr> req_namespace = C2, req_path = path,
                         req_credentials = BasicCredentials name password \<rparr>
           = Inl (namespace_not_found C2) \<and>
         (\<forall>req. Authorize app req \<noteq> Inl Forbidden)"
proof -
  let ?r1 = "\<lparr> req_namespace = C1, req_path = path,
               req_credentials = BasicCredentials name password \<rparr>"
  let ?r2 = "\<lparr> req_namespace = C2, req_path = path,
               req_credentials = BasicCredentials name password \<rparr>"
  have g1: "passes_shared_gate config (req_credentials ?r1)"
    and g2: "passes_shared_gate config (req_credentials ?r2)"
    using gate by simp_all
  have code: "Code ns = C1" using c1 by (rule GetByCode_Code)
  have a: "Authorize app ?r1 = Inl (namespace_not_found C1)"
    by (simp add: user_mode_chain [OF app load mode g1] namespace_middleware_def c1
        user_basic_auth_middleware_def user pw denied code)
  have b: "Authorize app ?r2 = Inl (namespace_not_found C2)"
    by (simp add: user_mode_chain [OF app load mode g2] namespace_middleware_def c2)
  have c: "\<forall>req. Authorize app req \<noteq> Inl Forbidden"
    by (simp add: Authorize_def run_chain_never_forbidden)
  from a b c show ?thesis by simp
qed

theorem existence_hiding_witness:
  "Authorize test_app (projects_request ''namespace3'' ''user1'' ''user1password'') =
     Inl (ErrorResponse
            (ResourceDoesNotExistError ''unable to find namespace with code: namespace3'')) \<and>
   Authorize test_app (projects_request ''ghost'' ''user1'' ''user1password'') =
     Inl (ErrorResponse
            (ResourceDoesNotExistError ''unable to find namespace with code: ghost''))"
proof -
  let ?u = "\<lparr> Name = ''user1'', Roles = [''ns:namespace1'', ''ns:namespace2''],
              Password = ''user1password'' \<rparr>"
  have load: "namespaces_load test_startup = Inr test_namespaces"
    by (simp add: test_startup_def)
  have mode: "AuthType (Auth test_config) = TypeUser"
    by (simp add: test_config_def)
  have gate: "passes_shared_gate test_config (BasicCredentials ''user1'' ''user1password'')"
    by (simp add: passes_shared_gate_def shared_gate_configured_def test_config_def)
  have user: "find (\<lambda>u. Name u = ''user1'') (AuthParsedUserPermissions (Auth test_config))
                = Some ?u"
    by (simp add: test_config_def test_users_def)
  have pw: "Password ?u = ''user1password''" by simp
  have c1: "GetByCode test_namespaces ''namespace3''
              = Some (test_namespace 4 ''namespace3'' ''Test namespace 3'')"
    by (simp add: GetByCode_def test_namespaces_def test_namespace_def)
  have denied: "\<not> user_permits ?u ''namespace3''"
    by (simp add: user_permits_def)
  have c2: "GetByCode test_namespaces ''ghost'' = None"
    by (simp add: GetByCode_def test_namespaces_def test_namespace_def)
  from existence_hiding [OF test_app_created load mode gate user pw c1 denied c2,
      of "''/aim/api/projects''"]
  show ?thesis
    by (simp add: projects_request_def namespace_not_found_def)
qed

text \<open>
  C4. A user with the admin role is let into every namespace that exists, whatever else
  the user's roles grant: under the per-user scheme a user whose roles include
  \<open>''admin''\<close>, under OIDC a user bound to a role flagged admin in the cached role
  repository. The request reaches the business handlers with that namespace and that
  identity.
\<close>

theorem admin_override:
  assumes app: "createApp config env = Inr app"
    and load: "namespaces_load env = Inr cache"
    and gate: "passes_shared_gate config creds"
    and exists: "GetByCode cache C = Some ns"
    and admin:
      "(AuthType (Auth config) = TypeUser \<and> creds = BasicCredentials user password \<and>
        (\<exists>u. find (\<lambda>u. Name u = user) (AuthParsedUserPermissions (Auth config)) = Some u \<and>
             Password u = password \<and> ''admin'' \<in> set (Roles u))) \<or>
       (AuthType (Auth config) = TypeOIDC \<and> creds = BearerToken token \<and>
        (\<exists>verify roles. oidc_client env = Inr verify \<and> roles_load env = Inr roles \<and>
             verify token = Some user \<and> IsAdmin roles user))"
  shows "Authorize app \<lparr> req_namespace = C, req_path = path, req_credentials = creds \<rparr>
           = Inr \<lparr> ctx_namespace = Some ns, ctx_identity = Some user \<rparr>"
proof -
  let ?r = "\<lparr> req_namespace = C, req_path = path, req_credentials = creds \<rparr>"
  have g: "passes_shared_gate config (req_credentials ?r)" using gate by simp
  from admin show ?thesis
  proof (elim disjE conjE exE)
    fix u
    assume mode: "AuthType (Auth config) = TypeUser"
      and creds: "creds = BasicCredentials user password"
      and u: "find (\<lambda>u. Name u = user) (AuthParsedUserPermissions (Auth config)) = Some u"
        "Password u = password" "''admin'' \<in> set (Roles u)"
    from user_mode_chain [OF app load mode g] show ?thesis
      by (simp add: namespace_middleware_def exists user_basic_auth_middleware_def creds u
          user_permits_def)
  next
    fix verify roles
    assume mode: "AuthType (Auth config) = TypeOIDC"
      and creds: "creds = BearerToken token"
      and o: "oidc_client env = Inr verify" "roles_load env = Inr roles"
        "verify token = Some user" "IsAdmin roles user"
    from oidc_mode_chain [OF app load o(2) o(1) mode g] show ?thesis
      by (simp add: namespace_middleware_def exists oidc_middleware_def creds o
          role_permits_def GetPermittedNamespaces_def)
  qed
qed

theorem admin_override_witness:
  "Authorize test_app (projects_request ''namespace1'' ''user3'' ''user3password'') =
     Inr \<lparr> ctx_namespace = Some (test_namespace 2 ''namespace1'' ''Test namespace 1''),
           ctx_identity = Some ''user3'' \<rparr> \<and>
   (\<exists>app. createApp oidc_config oidc_startup = Inr app \<and>
      Authorize app \<lparr> req_namespace = ''namespace3'', req_path = ''/aim/api/projects'',
                      req_credentials = BearerToken ''token-a'' \<rparr> =
        Inr \<lparr> ctx_namespace = Some (test_namespace 4 ''namespace3'' ''Test namespace 3''),
              ctx_identity = Some ''alice'' \<rparr>)"
proof -
  have load: "namespaces_load test_startup = Inr test_namespaces"
    by (simp add: test_startup_def)
  have gate: "passes_shared_gate test_config (BasicCredentials ''user3'' ''user3password'')"
    by (simp add: passes_shared_gate_def shared_gate_configured_def test_config_def)
  have ns1: "GetByCode test_namespaces ''namespace1''
              = Some (test_namespace 2 ''namespace1'' ''Test namespace 1'')"
    by (simp add: GetByCode_def test_namespaces_def test_namespace_def)
  have adm: "(AuthType (Auth test_config) = TypeUser \<and>
        BasicCredentials ''user3'' ''user3password'' = BasicCredentials ''user3'' ''user3password'' \<and>
        (\<exists>u. find (\<lambda>u. Name u = ''user3'') (AuthParsedUserPermissions (Auth test_config)) = Some u \<and>
             Password u = ''user3password'' \<and> ''admin'' \<in> set (Roles u))) \<or>
       (AuthType (Auth test_config) = TypeOIDC \<and>
        BasicCredentials ''user3'' ''user3password'' = BearerToken [] \<and>
        (\<exists>verify roles. oidc_client test_startup = Inr verify \<and>
             roles_load test_startup = Inr roles \<and>
             verify [] = Some ''user3'' \<and> IsAdmin roles ''user3''))"
    by (simp add: test_config_def test_users_def)
  have first: "Authorize test_app (projects_request ''namespace1'' ''user3'' ''user3password'') =
     Inr \<lparr> ctx_namespace = Some (test_namespace 2 ''namespace1'' ''Test namespace 1''),
           ctx_identity = Some ''user3'' \<rparr>"
    using admin_override [OF test_app_created load gate ns1 adm, of "''/aim/api/projects''"]
    by (simp add: projects_request_def)
  obtain app where app: "createApp oidc_config oidc_startup = Inr app"
    by (simp add: createApp_def step_def oidc_startup_def test_startup_def oidc_config_def
      NewNamespaceCachedRepository_def NewRoleCachedRepository_def auth_middleware_def
      IsAuthTypeOIDC_def)
  have load': "namespaces_load oidc_startup = Inr test_namespaces"
    by (simp add: oidc_startup_def test_startup_def)
  have gate': "passes_shared_gate oidc_config (BearerToken ''token-a'')"
    by (simp add: passes_shared_gate_def shared_gate_configured_def oidc_config_def)
  have ns3: "GetByCode test_namespaces ''namespace3''
              = Some (test_namespace 4 ''namespace3'' ''Test namespace 3'')"
    by (simp add: GetByCode_def test_namespaces_def test_namespace_def)
  have adm': "(AuthType (Auth oidc_config) = TypeUser \<and>
        BearerToken ''token-a'' = BasicCredentials ''alice'' [] \<and>
        (\<exists>u. find (\<lambda>u. Name u = ''alice'') (AuthParsedUserPermissions (Auth oidc_config)) = Some u \<and>
             Password u = [] \<and> ''admin'' \<in> set (Roles u))) \<or>
       (AuthType (Auth oidc_config) = TypeOIDC \<and>
        BearerToken ''token-a'' = BearerToken ''token-a'' \<and>
        (\<exists>verify roles. oidc_client oidc_startup = Inr verify \<and>
             roles_load oidc_startup = Inr roles \<and>
             verify ''token-a'' = Some ''alice'' \<and> IsAdmin roles ''alice''))"
    by (simp add: oidc_config_def oidc_startup_def oidc_verify_def IsAdmin_def oidc_roles_def)
  from admin_override [OF app load' gate' ns3 adm', of "''/aim/api/projects''"] app first
  show ?thesis by blast
qed

subsection \<open>Creating params in batch\<close>

lemma after_insert_Cons:
  "after_insert tbl (p # ps) =
     (case tbl (param_pk p) of
        None \<Rightarrow> after_insert (tbl(param_pk p \<mapsto> ParamValue p)) ps
      | Some old \<Rightarrow> after_insert tbl ps)"
  by (rule ext) (auto simp: after_insert_def first_input_def split: option.splits)

lemma after_insert_Nil: "after_insert tbl [] = tbl"
  by (rule ext) (simp add: after_insert_def first_input_def split: option.splits)

lemma insert_do_nothing_table:
  "fst (insert_do_nothing tbl ps) = after_insert tbl ps"
proof (induction ps arbitrary: tbl)
  case Nil
  show ?case by (simp add: after_insert_Nil)
next
  case (Cons p ps)
  show ?case
  proof (cases "tbl (param_pk p)")
    case None
    then show ?thesis
      by (simp add: after_insert_Cons case_prod_beta Cons del: fun_upd_apply)
  next
    case (Some old)
    then show ?thesis
      by (simp add: after_insert_Cons Cons)
  qed
qed

lemma insert_do_nothing_count_le:
  "snd (insert_do_nothing tbl ps) \<le> length ps"
proof (induction ps arbitrary: tbl)
  case Nil
  show ?case by simp
next
  case (Cons p ps)
  show ?case
  proof (cases "tbl (param_pk p)")
    case None
    then show ?thesis
      by (simp add: case_prod_beta Cons del: fun_upd_apply)
  next
    case (Some old)
    then show ?thesis
      by (simp add: le_SucI Cons)
  qed
qed

lemma after_insert_keeps:
  "tbl k = Some v \<Longrightarrow> after_insert tbl ps k = Some v"
  by (simp add: after_insert_def)

lemma conflicts_of_Cons:
  "conflicts_of tbl (p # ps) = [] \<longleftrightarrow>
     (case tbl (param_pk p) of None \<Rightarrow> True | Some old \<Rightarrow> ParamValue p = old) \<and>
     conflicts_of tbl ps = []"
  by (auto simp: conflicts_of_def split: option.splits)

lemma insert_do_nothing_all_inserted:
  "snd (insert_do_nothing tbl ps) = length ps \<Longrightarrow> conflicts_of (after_insert tbl ps) ps = []"
proof (induction ps arbitrary: tbl)
  case Nil
  show ?case by (simp add: conflicts_of_def)
next
  case (Cons p ps)
  show ?case
  proof (cases "tbl (param_pk p)")
    case None
    let ?t = "tbl(param_pk p \<mapsto> ParamValue p)"
    from Cons.prems None have "snd (insert_do_nothing ?t ps) = length ps"
      by (simp add: case_prod_beta)
    then have ih: "conflicts_of (after_insert ?t ps) ps = []" by (rule Cons.IH)
    have own: "after_insert ?t ps (param_pk p) = Some (ParamValue p)"
      by (rule after_insert_keeps) simp
    from None ih own show ?thesis
      by (simp add: after_insert_Cons conflicts_of_Cons)
  next
    case (Some old)
    with Cons.prems have "snd (insert_do_nothing tbl ps) = Suc (length ps)" by simp
    with insert_do_nothing_count_le [of tbl ps] show ?thesis by simp
  qed
qed

lemma after_insert_append:
  "after_insert (after_insert tbl ps) qs = after_insert tbl (ps @ qs)"
proof (induction ps arbitrary: tbl)
  case Nil
  show ?case by (simp add: after_insert_Nil)
next
  case (Cons p ps)
  show ?case
    by (cases "tbl (param_pk p)") (simp_all add: after_insert_Cons Cons del: fun_upd_apply)
qed

lemma insert_do_nothing_append:
  "snd (insert_do_nothing tbl (ps @ qs)) =
     snd (insert_do_nothing tbl ps) + snd (insert_do_nothing (after_insert tbl ps) qs)"
proof (induction ps arbitrary: tbl)
  case Nil
  show ?case by (simp add: after_insert_Nil)
next
  case (Cons p ps)
  show ?case
  proof (cases "tbl (param_pk p)")
    case None
    then show ?thesis
      by (simp add: after_insert_Cons case_prod_beta Cons del: fun_upd_apply)
  next
    case (Some old)
    then show ?thesis by (simp add: after_insert_Cons Cons)
  qed
qed

lemma create_batches_eq:
  "0 < batchSize \<Longrightarrow>
   create_batches batchSize tbl params rowsAffected =
     (after_insert tbl params, rowsAffected + snd (insert_do_nothing tbl params))"
proof (induction batchSize tbl params rowsAffected rule: create_batches.induct)
  case (1 batchSize tbl params rowsAffected)
  show ?case
  proof (cases "params = []")
    case True
    then show ?thesis by (subst create_batches.simps) (simp add: after_insert_Nil)
  next
    case False
    obtain t n where ins: "insert_do_nothing tbl (take batchSize params) = (t, n)"
      by (cases "insert_do_nothing tbl (take batchSize params)") auto
    from insert_do_nothing_table [of tbl "take batchSize params"] ins
    have t: "t = after_insert tbl (take batchSize params)" by simp
    from "1.prems" False have c: "\<not> (batchSize = 0 \<or> params = [])" by simp
    from "1.IH" [OF c ins [symmetric] "1.prems"]
    have "create_batches batchSize t (drop batchSize params) (rowsAffected + n) =
            (after_insert t (drop batchSize params),
             rowsAffected + n + snd (insert_do_nothing t (drop batchSize params)))" .
    moreover have "after_insert t (drop batchSize params) = after_insert tbl params"
      by (simp add: t after_insert_append)
    moreover have "n + snd (insert_do_nothing t (drop batchSize params)) =
                   snd (insert_do_nothing tbl params)"
      using insert_do_nothing_append [of tbl "take batchSize params" "drop batchSize params"] ins
      by (simp add: t)
    ultimately show ?thesis
      using c ins by (subst create_batches.simps) simp
  qed
qed

lemma after_insert_defined:
  "p \<in> set ps \<Longrightarrow> after_insert tbl ps (param_pk p) \<noteq> None"
proof -
  assume "p \<in> set ps"
  then have "param_pk p \<in> fst ` set (map (\<lambda>p. (param_pk p, ParamValue p)) ps)"
    by force
  then have "first_input ps (param_pk p) \<noteq> None"
    unfolding first_input_def by (simp add: map_of_eq_None_iff)
  then show ?thesis by (simp add: after_insert_def split: option.splits)
qed

lemma conflicts_of_after_insert:
  "conflicts_of (after_insert tbl ps) ps \<noteq> [] \<longleftrightarrow>
     list_ex (conflicts_with_batch tbl ps) ps"
proof -
  have "conflicts_of t qs \<noteq> [] \<longleftrightarrow>
          list_ex (\<lambda>p. case t (param_pk p) of None \<Rightarrow> False | Some old \<Rightarrow> ParamValue p \<noteq> old) qs"
    for t qs
    by (induction qs) (auto simp: conflicts_of_def split: option.splits)
  moreover have "(case after_insert tbl ps (param_pk p) of None \<Rightarrow> False
                  | Some old \<Rightarrow> ParamValue p \<noteq> old) = conflicts_with_batch tbl ps p"
    if "p \<in> set ps" for p
    using after_insert_defined [OF that, of tbl]
    by (auto simp: conflicts_with_batch_def split: option.splits)
  ultimately show ?thesis
    by (auto simp: list_ex_iff)
qed

lemma table_conflict_is_batch_conflict:
  "conflicts_with_table tbl p \<Longrightarrow> conflicts_with_batch tbl ps p"
  by (auto simp: conflicts_with_table_def conflicts_with_batch_def after_insert_def
      split: option.splits)

lemma create_batch_body_result:
  assumes b: "0 < batchSize" and ce: "create_error db = None" and se: "select_error db = None"
  shows "create_batch_body reading batchSize params db =
           (if list_ex (conflicts_with_batch (params_rows db) params) params
            then Inl (ParamConflictError
                        (conflict_message
                           (conflicts_of (after_insert (params_rows db) params) params)))
            else Inr (db\<lparr> params_rows := after_insert (params_rows db) params \<rparr>))"
proof -
  let ?tbl = "params_rows db"
  let ?n = "snd (insert_do_nothing ?tbl params)"
  let ?db' = "db\<lparr> params_rows := after_insert ?tbl params \<rparr>"
  have cib: "CreateInBatches db params batchSize = Inr (?db', ?n)"
    using b ce by (simp add: CreateInBatches_def create_batches_eq)
  have fcp: "findConflictingParams ?db' params =
               Inr (conflicts_of (after_insert ?tbl params) params)"
    using se by (simp add: findConflictingParams_def)
  have skip: "conflicts_of (after_insert ?tbl params) params = []"
    if "RowsAffected reading ?n = length params"
  proof (cases reading)
    case CountOfStatement
    with that have "?n = length params" by (simp add: RowsAffected_def)
    then show ?thesis by (rule insert_do_nothing_all_inserted)
  next
    case CounterOfHandle
    with that have "params = []" by (simp add: RowsAffected_def)
    then show ?thesis by (simp add: conflicts_of_def)
  qed
  show ?thesis
  proof (cases "RowsAffected reading ?n = length params")
    case True
    from skip [OF True] conflicts_of_after_insert [of ?tbl params]
    have "\<not> list_ex (conflicts_with_batch ?tbl params) params" by simp
    with True cib show ?thesis by (simp add: create_batch_body_def)
  next
    case False
    with cib fcp conflicts_of_after_insert [of ?tbl params] show ?thesis
      by (simp add: create_batch_body_def)
  qed
qed

lemma CreateBatch_rollback:
  "fst (CreateBatch reading db batchSize params) \<noteq> None \<Longrightarrow>
   snd (CreateBatch reading db batchSize params) = db"
  by (simp add: CreateBatch_def Transaction_def split: sum.splits)

lemma after_insert_duplicates:
  "list_all (\<lambda>p. tbl (param_pk p) = Some (ParamValue p)) ps \<Longrightarrow> after_insert tbl ps = tbl"
proof (induction ps)
  case Nil
  show ?case by (simp add: after_insert_Nil)
next
  case (Cons p ps)
  then show ?case by (simp add: after_insert_Cons)
qed

lemma duplicates_no_conflict:
  "list_all (\<lambda>p. tbl (param_pk p) = Some (ParamValue p)) ps \<Longrightarrow>
   \<not> list_ex (conflicts_with_batch tbl ps) ps"
  by (auto simp: list_all_iff list_ex_iff conflicts_with_batch_def after_insert_def)

text \<open>
  The error is not only for keys that were in the table: on an empty table, two input
  params with the same key and different values are a conflict, under either reading of
  the rows affected.
\<close>

theorem CreateBatch_conflict_within_batch_counterexample:
  "\<not> list_ex (conflicts_with_table (params_rows empty_params_db)) [lr_param ''0.1'', lr_param ''0.2''] \<and>
   CreateBatch CountOfStatement empty_params_db 100 [lr_param ''0.1'', lr_param ''0.2''] =
     (Some (ParamConflictError
        ''conflicting params found: [{run_id: run1, key: lr, old_value: 0.1, new_value: 0.2}]''),
      empty_params_db) \<and>
   CreateBatch CounterOfHandle empty_params_db 100 [lr_param ''0.1'', lr_param ''0.2''] =
     (Some (ParamConflictError
        ''conflicting params found: [{run_id: run1, key: lr, old_value: 0.1, new_value: 0.2}]''),
      empty_params_db)"
proof -
  let ?ps = "[lr_param ''0.1'', lr_param ''0.2'']"
  have a: "\<not> list_ex (conflicts_with_table (params_rows empty_params_db)) ?ps"
    by (simp add: conflicts_with_table_def empty_params_db_def)
  have ce: "create_error empty_params_db = None" and se: "select_error empty_params_db = None"
    by (simp_all add: empty_params_db_def)
  have ai: "after_insert (params_rows empty_params_db) ?ps (param_pk (lr_param v)) = Some ''0.1''"
    for v
    by (simp add: after_insert_def first_input_def empty_params_db_def param_pk_def lr_param_def)
  have cf: "list_ex (conflicts_with_batch (params_rows empty_params_db) ?ps) ?ps"
    by (simp add: conflicts_with_batch_def ai) (simp add: lr_param_def)
  have msg: "conflict_message (conflicts_of (after_insert (params_rows empty_params_db) ?ps) ?ps)
    = ''conflicting params found: [{run_id: run1, key: lr, old_value: 0.1, new_value: 0.2}]''"
    by (simp add: conflicts_of_def ai conflict_message_def)
      (simp add: lr_param_def String_paramConflict_def)
  have "CreateBatch reading empty_params_db 100 ?ps =
     (Some (ParamConflictError
        ''conflicting params found: [{run_id: run1, key: lr, old_value: 0.1, new_value: 0.2}]''),
      empty_params_db)" for reading
    using create_batch_body_result [of 100 empty_params_db reading ?ps] ce se cf msg
    by (simp add: CreateBatch_def Transaction_def)
  with a show ?thesis by simp
qed

text \<open>
  C8, as the code has it. When the batch size is positive and the insert and the conflict
  query succeed, \<^verbatim>\<open>CreateBatch\<close> returns a \<^verbatim>\<open>ParamConflictError\<close> if and only if
  some input param has a key (run and param key) that has another value in the table or,
  for a key that is not in the table, in an earlier param of the same input (the first
  one with the key is the one inserted). In particular a key that is in the table with
  another value is a conflict. Input params that repeat a row of the table exactly are
  ignored, without error; with no conflict the call inserts the first param of each new
  key and returns no error. Whenever the call returns an error the transaction is rolled
  back and the table is as it was.
\<close>

theorem CreateBatch_conflicts:
  assumes b: "0 < batchSize" and ce: "create_error db = None" and se: "select_error db = None"
  shows "(is_conflict_error (fst (CreateBatch reading db batchSize params)) \<longleftrightarrow>
            list_ex (conflicts_with_batch (params_rows db) params) params) \<and>
         (list_ex (conflicts_with_table (params_rows db)) params \<longrightarrow>
            is_conflict_error (fst (CreateBatch reading db batchSize params))) \<and>
         (list_all (\<lambda>p. params_rows db (param_pk p) = Some (ParamValue p)) params \<longrightarrow>
            CreateBatch reading db batchSize params = (None, db)) \<and>
         (\<not> list_ex (conflicts_with_batch (params_rows db) params) params \<longrightarrow>
            CreateBatch reading db batchSize params =
              (None, db\<lparr> params_rows := after_insert (params_rows db) params \<rparr>)) \<and>
         (fst (CreateBatch reading db batchSize params) \<noteq> None \<longrightarrow>
            snd (CreateBatch reading db batchSize params) = db)"
proof -
  note body = create_batch_body_result [OF b ce se, of reading params]
  have one: "is_conflict_error (fst (CreateBatch reading db batchSize params)) \<longleftrightarrow>
            list_ex (conflicts_with_batch (params_rows db) params) params"
    by (simp add: CreateBatch_def Transaction_def body is_conflict_error_def)
  have two: "list_ex (conflicts_with_table (params_rows db)) params \<longrightarrow>
            is_conflict_error (fst (CreateBatch reading db batchSize params))"
    unfolding one by (auto simp: list_ex_iff intro: table_conflict_is_batch_conflict)
  have four: "\<not> list_ex (conflicts_with_batch (params_rows db) params) params \<longrightarrow>
            CreateBatch reading db batchSize params =
              (None, db\<lparr> params_rows := after_insert (params_rows db) params \<rparr>)"
    by (simp add: CreateBatch_def Transaction_def body)
  have three: "list_all (\<lambda>p. params_rows db (param_pk p) = Some (ParamValue p)) params \<longrightarrow>
            CreateBatch reading db batchSize params = (None, db)"
  proof
    assume d: "list_all (\<lambda>p. params_rows db (param_pk p) = Some (ParamValue p)) params"
    from four duplicates_no_conflict [OF d] after_insert_duplicates [OF d]
    show "CreateBatch reading db batchSize params = (None, db)" by simp
  qed
  have five: "fst (CreateBatch reading db batchSize params) \<noteq> None \<longrightarrow>
            snd (CreateBatch reading db batchSize params) = db"
    using CreateBatch_rollback by blast
  from one two three four five show ?thesis by blast
qed

theorem CreateBatch_conflicts_witness:
  "fst (CreateBatch CountOfStatement seeded_params_db 100 [lr_param ''0.1'', batch_size_param])
     = None \<and>
   params_rows
     (snd (CreateBatch CountOfStatement seeded_params_db 100 [lr_param ''0.1'', batch_size_param]))
     (''run1'', ''bs'') = Some ''32'' \<and>
   params_rows
     (snd (CreateBatch CountOfStatement seeded_params_db 100 [lr_param ''0.1'', batch_size_param]))
     (''run1'', ''lr'') = Some ''0.1'' \<and>
   CreateBatch CounterOfHandle seeded_params_db 100 [lr_param ''0.1''] = (None, seeded_params_db) \<and>
   is_conflict_error (fst (CreateBatch CounterOfHandle seeded_params_db 100 [lr_param ''0.5''])) \<and>
   snd (CreateBatch CounterOfHandle seeded_params_db 100 [lr_param ''0.5'']) = seeded_params_db"
proof -
  have b: "0 < (100::nat)" by simp
  have ce: "create_error seeded_params_db = None" and se: "select_error seeded_params_db = None"
    by (simp_all add: seeded_params_db_def)
  let ?ps = "[lr_param ''0.1'', batch_size_param]"
  have ai: "after_insert (params_rows seeded_params_db) ?ps (''run1'', ''bs'') = Some ''32''"
    "after_insert (params_rows seeded_params_db) ?ps (''run1'', ''lr'') = Some ''0.1''"
    by (simp_all add: after_insert_def first_input_def seeded_params_db_def param_pk_def
        lr_param_def batch_size_param_def)
  have nc: "\<not> list_ex (conflicts_with_batch (params_rows seeded_params_db) ?ps) ?ps"
    by (simp add: conflicts_with_batch_def param_pk_def after_insert_def first_input_def
        seeded_params_db_def lr_param_def batch_size_param_def)
  from CreateBatch_conflicts [OF b ce se, of CountOfStatement ?ps] nc
  have r1: "CreateBatch CountOfStatement seeded_params_db 100 ?ps =
              (None, seeded_params_db\<lparr> params_rows :=
                        after_insert (params_rows seeded_params_db) ?ps \<rparr>)"
    by blast
  have dup: "list_all (\<lambda>p. params_rows seeded_params_db (param_pk p) = Some (ParamValue p))
               [lr_param ''0.1'']"
    by (simp add: seeded_params_db_def param_pk_def lr_param_def)
  from CreateBatch_conflicts [OF b ce se, of CounterOfHandle "[lr_param ''0.1'']"] dup
  have r2: "CreateBatch CounterOfHandle seeded_params_db 100 [lr_param ''0.1'']
              = (None, seeded_params_db)"
    by blast
  have clash: "list_ex (conflicts_with_table (params_rows seeded_params_db)) [lr_param ''0.5'']"
    by (simp add: conflicts_with_table_def seeded_params_db_def param_pk_def lr_param_def)
  from CreateBatch_conflicts [OF b ce se, of CounterOfHandle "[lr_param ''0.5'']"] clash
  have r3: "is_conflict_error (fst (CreateBatch CounterOfHandle seeded_params_db 100 [lr_param ''0.5'']))"
    by blast
  then have "fst (CreateBatch CounterOfHandle seeded_params_db 100 [lr_param ''0.5'']) \<noteq> None"
    by (auto simp: is_conflict_error_def split: option.splits)
  with CreateBatch_conflicts [OF b ce se, of CounterOfHandle "[lr_param ''0.5'']"]
  have r4: "snd (CreateBatch CounterOfHandle seeded_params_db 100 [lr_param ''0.5''])
              = seeded_params_db"
    by blast
  from r1 r2 r3 r4 ai show ?thesis by simp
qed

subsection \<open>Uniqueness of namespace codes\<close>

text \<open>
  C5. In a store that holds an active namespace with the code \<open>C\<close>, creating a second
  namespace with the code \<open>C\<close>, and updating the code of any other active namespace to
  \<open>C\<close>, fail with a constraint violation, and the store returned with the error is the
  store as it was.
\<close>

theorem duplicate_code_is_refused:
  assumes n: "n \<in> set store" and active: "DeletedAt n = None" and code: "Code n = C"
  shows "(\<exists>msg. CreateNamespace store C description default_experiment
                  = (Some (ConstraintViolation msg), store)) \<and>
         (\<forall>m. m \<in> set store \<and> DeletedAt m = None \<and> ID m \<noteq> ID n \<longrightarrow>
              (\<exists>msg. UpdateNamespace store (ID m) C description
                       = (Some (ConstraintViolation msg), store)))"
proof -
  from n active code have used: "code_in_use store C None"
    by (auto simp: code_in_use_def list_ex_iff)
  then have create: "\<exists>msg. CreateNamespace store C description default_experiment
                  = (Some (ConstraintViolation msg), store)"
    by (simp add: CreateNamespace_def)
  have update: "\<exists>msg. UpdateNamespace store (ID m) C description
                       = (Some (ConstraintViolation msg), store)"
    if m: "m \<in> set store" "DeletedAt m = None" "ID m \<noteq> ID n" for m
  proof -
    from m have "find (\<lambda>k. ID k = ID m \<and> DeletedAt k = None) store \<noteq> None"
      by (auto simp: find_None_iff)
    then obtain ns where f: "find (\<lambda>k. ID k = ID m \<and> DeletedAt k = None) store = Some ns"
      by auto
    from n active code m(3) have "code_in_use store C (Some (ID m))"
      by (auto simp: code_in_use_def list_ex_iff)
    with f show ?thesis by (simp add: UpdateNamespace_def)
  qed
  from create update show ?thesis by blast
qed

theorem duplicate_code_is_refused_witness:
  "CreateNamespace update_test_store ''default'' ''again'' None =
     (Some (ConstraintViolation ''The namespace code is already in use.''), update_test_store) \<and>
   UpdateNamespace update_test_store 2 ''default'' ''test namespace updated'' =
     (Some (ConstraintViolation ''The namespace code is already in use.''), update_test_store) \<and>
   UpdateNamespace update_test_store 2 ''test2Updated'' ''test namespace 2 description updated'' =
     (None, [test_namespace 1 ''default'' '''',
             test_namespace 2 ''test2Updated'' ''test namespace 2 description updated''])"
proof -
  let ?n = "test_namespace 1 ''default'' ''''"
  let ?m = "test_namespace 2 ''test2'' ''test namespace 2 description''"
  have n: "?n \<in> set update_test_store" and m: "?m \<in> set update_test_store"
    by (simp_all add: update_test_store_def)
  have a: "DeletedAt ?n = None" "Code ?n = ''default''" "DeletedAt ?m = None" "ID ?m \<noteq> ID ?n"
    "ID ?m = 2"
    by (simp_all add: test_namespace_def)
  from duplicate_code_is_refused [OF n a(1) a(2), of "''again''" None] obtain msg where
    c: "CreateNamespace update_test_store ''default'' ''again'' None
          = (Some (ConstraintViolation msg), update_test_store)"
    by blast
  have cm: "msg = ''The namespace code is already in use.''"
    using c by (simp add: CreateNamespace_def split: if_splits)
  from duplicate_code_is_refused [OF n a(1) a(2), of "''test namespace updated''" None] m a
  obtain msg' where
    u: "UpdateNamespace update_test_store 2 ''default'' ''test namespace updated''
          = (Some (ConstraintViolation msg'), update_test_store)"
    by metis
  have um: "msg' = ''The namespace code is already in use.''"
    using u
    by (simp add: UpdateNamespace_def update_test_store_def test_namespace_def
        split: if_splits)
  have ok: "UpdateNamespace update_test_store 2 ''test2Updated''
              ''test namespace 2 description updated'' =
     (None, [test_namespace 1 ''default'' '''',
             test_namespace 2 ''test2Updated'' ''test namespace 2 description updated''])"
    by (simp add: UpdateNamespace_def update_test_store_def test_namespace_def code_in_use_def)
  from c cm u um ok show ?thesis by simp
qed

end
